theory Spec2Isabelle
  imports Complex_Main "HOL-Library.AList"
begin

section \<open>The IoT device registry and telemetry simulator (src/services/iotService.ts)\<close>

text \<open>
  The service keeps three private maps: the registered devices, the per-device history of
  sensor readings, and the event handlers. A JavaScript \<^verbatim>\<open>Map\<close> iterates in insertion
  order and \<^verbatim>\<open>set\<close> on a present key replaces the value in place, which is what an
  association list with \<^const>\<open>AList.update\<close> does.

  The numbers stored in the records (values, ranges, accuracies) are finite doubles, each
  modelled as the \<^typ>\<open>real\<close> it denotes; the comparisons, \<^verbatim>\<open>Math.max\<close> and \<^verbatim>\<open>Math.min\<close> of
  the source are exact on them. The anomaly check, whose verdict depends on how its sums,
  quotients, squares and square root are rounded, is computed in IEEE 754 double
  arithmetic, with the infinities and \<^verbatim>\<open>NaN\<close> as results. The synthesis of a reading is taken
  without rounding: what is stated about it does not depend on the rounding. The distance
  filter of \<^verbatim>\<open>getDevices\<close> is not modelled: its verdict depends on \<^verbatim>\<open>Math.sin\<close>, \<^verbatim>\<open>Math.cos\<close> and
  \<^verbatim>\<open>Math.atan2\<close>, whose double results the language leaves to the implementation.

  The three sources of nondeterminism, \<^verbatim>\<open>crypto.randomUUID()\<close>, \<^verbatim>\<open>Math.random()\<close> and the
  clock (\<^verbatim>\<open>Date.now()\<close>, \<^verbatim>\<open>new Date()\<close>), are streams owned by the environment; every call
  of the source takes the head of its stream.
\<close>

subsection \<open>Data model\<close>

datatype DeviceType =
  dt_camera | dt_sensor | dt_beacon | dt_scanner | dt_display | dt_printer | dt_gateway
  | dt_vehicle_unit

datatype SensorType =
  temperature | humidity | pressure | motion | proximity | gps | accelerometer | camera
  | microphone

datatype ConnectivityType = wifi | cellular | bluetooth | lora | zigbee

datatype Quality = excellent | good | fair | poor

datatype Severity = low | medium | high | critical

text \<open>The strings the source compares and concatenates.\<close>

fun DeviceType_str :: "DeviceType \<Rightarrow> string" where
  "DeviceType_str dt_camera = ''camera''"
| "DeviceType_str dt_sensor = ''sensor''"
| "DeviceType_str dt_beacon = ''beacon''"
| "DeviceType_str dt_scanner = ''scanner''"
| "DeviceType_str dt_display = ''display''"
| "DeviceType_str dt_printer = ''printer''"
| "DeviceType_str dt_gateway = ''gateway''"
| "DeviceType_str dt_vehicle_unit = ''vehicle-unit''"

fun SensorType_str :: "SensorType \<Rightarrow> string" where
  "SensorType_str temperature = ''temperature''"
| "SensorType_str humidity = ''humidity''"
| "SensorType_str pressure = ''pressure''"
| "SensorType_str motion = ''motion''"
| "SensorType_str proximity = ''proximity''"
| "SensorType_str gps = ''gps''"
| "SensorType_str accelerometer = ''accelerometer''"
| "SensorType_str camera = ''camera''"
| "SensorType_str microphone = ''microphone''"

record GeoLocation =
  lat :: real
  lng :: real
  address :: "string option"

text \<open>
  The metadata of a reading is the empty object at registration and the four fields of
  \<^verbatim>\<open>generateSensorReading\<close> afterwards.
\<close>

record ReadingMetadata =
  meta_deviceId :: string
  meta_sensorType :: SensorType
  meta_location :: GeoLocation
  meta_connectivity :: real

record SensorReading =
  reading_id :: string
  reading_value :: real
  reading_timestamp :: int
  reading_quality :: Quality
  reading_metadata :: "ReadingMetadata option"

record CalibrationInfo =
  lastCalibrated :: int
  nextCalibration :: int
  cal_offset :: real
  cal_scale :: real

record Sensor =
  sensor_id :: string
  sensor_type :: SensorType
  sensor_unit :: string
  sensor_range :: "real \<times> real"
  sensor_accuracy :: real
  lastReading :: SensorReading
  calibration :: CalibrationInfo

record ConnectivityInfo =
  conn_type :: ConnectivityType
  conn_strength :: real
  conn_protocol :: string
  lastSeen :: int
  dataUsage :: real

record FirmwareInfo =
  fw_version :: string
  lastUpdate :: int
  updateAvailable :: bool
  autoUpdate :: bool

record Vulnerability =
  vuln_severity :: Severity
  vuln_description :: string
  vuln_cve :: "string option"
  vuln_mitigation :: string

record DeviceSecurity =
  encrypted :: bool
  certificateExpiry :: int
  lastSecurityScan :: int
  vulnerabilities :: "Vulnerability list"

text \<open>
  \<^verbatim>\<open>DeviceStatus\<close> is imported from the type declarations but not declared there; the
  service only ever stores the strings \<^verbatim>\<open>'online'\<close> and \<^verbatim>\<open>'offline'\<close>, and a filter may
  carry any string, so the status is a string.
\<close>

type_synonym DeviceStatus = string

record IoTDevice =
  device_id :: string
  device_type :: DeviceType
  device_location :: GeoLocation
  device_status :: DeviceStatus
  sensors :: "Sensor list"
  connectivity :: ConnectivityInfo
  firmware :: FirmwareInfo
  security :: DeviceSecurity

record Threshold =
  thr_min :: real
  thr_max :: real
  thr_severity :: Severity

subsection \<open>Quality assessment and the threshold table\<close>

definition assessDataQuality :: "real \<Rightarrow> Sensor \<Rightarrow> Quality" where
  "assessDataQuality v sensor =
     (let withinRange = (v \<ge> fst (sensor_range sensor) \<and> v \<le> snd (sensor_range sensor));
          accuracy = sensor_accuracy sensor
      in if withinRange \<and> accuracy > 0.9 then excellent
         else if withinRange \<and> accuracy > 0.8 then good
         else if withinRange \<and> accuracy > 0.6 then fair
         else poor)"

text \<open>The object literal \<^verbatim>\<open>thresholds\<close> of \<^verbatim>\<open>checkThresholds\<close>, indexed by sensor type.\<close>

fun thresholds :: "SensorType \<Rightarrow> Threshold option" where
  "thresholds temperature = Some \<lparr>thr_min = -10, thr_max = 40, thr_severity = medium\<rparr>"
| "thresholds humidity = Some \<lparr>thr_min = 20, thr_max = 80, thr_severity = low\<rparr>"
| "thresholds motion = Some \<lparr>thr_min = 0, thr_max = 80, thr_severity = high\<rparr>"
| "thresholds microphone = Some \<lparr>thr_min = 0, thr_max = 85, thr_severity = medium\<rparr>"
| "thresholds _ = None"

definition checkThresholds :: "Sensor \<Rightarrow> SensorReading \<Rightarrow> Threshold option" where
  "checkThresholds sensor reading =
     (case thresholds (sensor_type sensor) of
        None \<Rightarrow> None
      | Some threshold \<Rightarrow>
          if reading_value reading < thr_min threshold \<or> reading_value reading > thr_max threshold
          then Some threshold
          else None)"

subsection \<open>Double arithmetic\<close>

text \<open>
  The result of an arithmetic operation of the source: a finite double, given by the real
  it denotes, an infinity or \<^verbatim>\<open>NaN\<close>. The two zeros are identified; no operation modelled
  here tells them apart.
\<close>

datatype js_number = Num real | PosInfinity | NegInfinity | NaN

text \<open>Rounding to the nearest integer, ties to the even one.\<close>

definition round_half_even :: "real \<Rightarrow> int" where
  "round_half_even y =
     (let f = \<lfloor>y\<rfloor>
      in if y - real_of_int f < 1 / 2 then f
         else if 1 / 2 < y - real_of_int f then f + 1
         else if even f then f else f + 1)"

text \<open>
  Rounding of a real to binary64, round-to-nearest, ties-to-even: 53 significant bits,
  the exponent of the last bit not below \<open>-1074\<close> (subnormal numbers), and an infinity when
  the rounded magnitude reaches \<open>2\<^sup>1\<^sup>0\<^sup>2\<^sup>4\<close>.
\<close>

definition roundTiesToEven :: "real \<Rightarrow> js_number" where
  "roundTiesToEven x =
     (if x = 0 then Num 0
      else let e = max \<lfloor>log 2 \<bar>x\<bar>\<rfloor> (- 1022) - 52;
               y = real_of_int (round_half_even (x / 2 powi e)) * 2 powi e
           in if 2 powi 1024 \<le> \<bar>y\<bar> then (if 0 < x then PosInfinity else NegInfinity)
              else Num y)"

text \<open>The operators \<^verbatim>\<open>-x\<close>, \<^verbatim>\<open>x + y\<close>, \<^verbatim>\<open>x - y\<close>, \<^verbatim>\<open>x * y\<close>, \<^verbatim>\<open>x / y\<close> and \<^verbatim>\<open>x > y\<close> on numbers.\<close>

fun js_neg :: "js_number \<Rightarrow> js_number" where
  "js_neg (Num a) = Num (- a)"
| "js_neg PosInfinity = NegInfinity"
| "js_neg NegInfinity = PosInfinity"
| "js_neg NaN = NaN"

fun js_add :: "js_number \<Rightarrow> js_number \<Rightarrow> js_number" where
  "js_add (Num a) (Num b) = roundTiesToEven (a + b)"
| "js_add NaN _ = NaN"
| "js_add _ NaN = NaN"
| "js_add PosInfinity NegInfinity = NaN"
| "js_add NegInfinity PosInfinity = NaN"
| "js_add PosInfinity _ = PosInfinity"
| "js_add _ PosInfinity = PosInfinity"
| "js_add NegInfinity _ = NegInfinity"
| "js_add _ NegInfinity = NegInfinity"

definition js_sub :: "js_number \<Rightarrow> js_number \<Rightarrow> js_number" where
  "js_sub a b = js_add a (js_neg b)"

fun js_mul :: "js_number \<Rightarrow> js_number \<Rightarrow> js_number" where
  "js_mul (Num a) (Num b) = roundTiesToEven (a * b)"
| "js_mul NaN _ = NaN"
| "js_mul _ NaN = NaN"
| "js_mul (Num a) PosInfinity = (if a = 0 then NaN else if 0 < a then PosInfinity else NegInfinity)"
| "js_mul (Num a) NegInfinity = (if a = 0 then NaN else if 0 < a then NegInfinity else PosInfinity)"
| "js_mul PosInfinity (Num b) = (if b = 0 then NaN else if 0 < b then PosInfinity else NegInfinity)"
| "js_mul NegInfinity (Num b) = (if b = 0 then NaN else if 0 < b then NegInfinity else PosInfinity)"
| "js_mul PosInfinity PosInfinity = PosInfinity"
| "js_mul NegInfinity NegInfinity = PosInfinity"
| "js_mul PosInfinity NegInfinity = NegInfinity"
| "js_mul NegInfinity PosInfinity = NegInfinity"

text \<open>
  The only divisor in the source is the length of an array; a zero divisor is taken as
  the positive zero.
\<close>

fun js_div :: "js_number \<Rightarrow> js_number \<Rightarrow> js_number" where
  "js_div (Num a) (Num b) =
     (if b = 0 then (if a = 0 then NaN else if 0 < a then PosInfinity else NegInfinity)
      else roundTiesToEven (a / b))"
| "js_div NaN _ = NaN"
| "js_div _ NaN = NaN"
| "js_div (Num a) _ = Num 0"
| "js_div PosInfinity (Num b) = (if 0 \<le> b then PosInfinity else NegInfinity)"
| "js_div NegInfinity (Num b) = (if 0 \<le> b then NegInfinity else PosInfinity)"
| "js_div _ _ = NaN"

fun js_gt :: "js_number \<Rightarrow> js_number \<Rightarrow> bool" where
  "js_gt (Num a) (Num b) = (a > b)"
| "js_gt NaN _ = False"
| "js_gt _ NaN = False"
| "js_gt PosInfinity PosInfinity = False"
| "js_gt PosInfinity _ = True"
| "js_gt _ PosInfinity = False"
| "js_gt NegInfinity _ = False"
| "js_gt _ NegInfinity = True"

text \<open>
  \<^verbatim>\<open>Math.pow(x, 2)\<close>, \<^verbatim>\<open>Math.sqrt(x)\<close> and \<^verbatim>\<open>Math.abs(x)\<close>. The square is the rounded product
  \<open>x * x\<close> and the square root is the rounded root, as IEEE 754 has them.
\<close>

fun Math_pow2 :: "js_number \<Rightarrow> js_number" where
  "Math_pow2 (Num a) = roundTiesToEven (a * a)"
| "Math_pow2 NaN = NaN"
| "Math_pow2 _ = PosInfinity"

fun Math_sqrt :: "js_number \<Rightarrow> js_number" where
  "Math_sqrt (Num a) = (if a < 0 then NaN else roundTiesToEven (sqrt a))"
| "Math_sqrt PosInfinity = PosInfinity"
| "Math_sqrt _ = NaN"

fun Math_abs :: "js_number \<Rightarrow> js_number" where
  "Math_abs (Num a) = Num \<bar>a\<bar>"
| "Math_abs NaN = NaN"
| "Math_abs _ = PosInfinity"

subsection \<open>Anomaly detection\<close>

text \<open>\<^verbatim>\<open>xs.slice(-n)\<close>: the last \<open>n\<close> elements, all of them when there are fewer.\<close>

definition slice_last :: "nat \<Rightarrow> 'a list \<Rightarrow> 'a list" where
  "slice_last n xs = drop (length xs - n) xs"

type_synonym ReadingStore = "(string \<times> SensorReading list) list"

text \<open>\<^verbatim>\<open>this.sensorReadings.get(deviceId) || []\<close>\<close>

definition readingsOf :: "ReadingStore \<Rightarrow> string \<Rightarrow> SensorReading list" where
  "readingsOf store deviceId = (case map_of store deviceId of None \<Rightarrow> [] | Some rs \<Rightarrow> rs)"

text \<open>
  The two \<^verbatim>\<open>reduce\<close> calls of \<^verbatim>\<open>detectAnomaly\<close>, from the oldest reading to the newest, every
  operation rounded.
\<close>

definition average_of :: "SensorReading list \<Rightarrow> js_number" where
  "average_of recentReadings =
     js_div (foldl (\<lambda>sum r. js_add sum (Num (reading_value r))) (Num 0) recentReadings)
       (Num (real (length recentReadings)))"

definition stdDev_of :: "SensorReading list \<Rightarrow> js_number" where
  "stdDev_of recentReadings =
     Math_sqrt
       (js_div
          (foldl (\<lambda>sum r. js_add sum
                     (Math_pow2 (js_sub (Num (reading_value r)) (average_of recentReadings))))
             (Num 0) recentReadings)
          (Num (real (length recentReadings))))"

text \<open>The parameter \<open>sensorId\<close> is accepted and never read, as in the source.\<close>

definition detectAnomaly :: "ReadingStore \<Rightarrow> string \<Rightarrow> string \<Rightarrow> SensorReading \<Rightarrow> bool" where
  "detectAnomaly store deviceId sensorId reading =
     (let readings = readingsOf store deviceId;
          recentReadings = slice_last 10 readings
      in if length recentReadings < 5 then False
         else js_gt (Math_abs (js_sub (Num (reading_value reading)) (average_of recentReadings)))
                (js_mul (Num 2) (stdDev_of recentReadings)))"

subsection \<open>The environment: identifiers, random numbers, the clock\<close>

record Env =
  uuid_stream :: "nat \<Rightarrow> string"
  random_stream :: "nat \<Rightarrow> real"
  clock_stream :: "nat \<Rightarrow> int"

text \<open>
  \<^verbatim>\<open>crypto.randomUUID()\<close>. That the generator never hands out the same identifier twice is
  not part of the model; it is a hypothesis where a statement needs it.
\<close>

definition randomUUID :: "Env \<Rightarrow> string \<times> Env" where
  "randomUUID env = (uuid_stream env 0, env\<lparr>uuid_stream := (\<lambda>n. uuid_stream env (Suc n))\<rparr>)"

text \<open>\<^verbatim>\<open>Math.random()\<close>\<close>

definition Math_random :: "Env \<Rightarrow> real \<times> Env" where
  "Math_random env =
     (random_stream env 0, env\<lparr>random_stream := (\<lambda>n. random_stream env (Suc n))\<rparr>)"

text \<open>\<^verbatim>\<open>Date.now()\<close> and \<^verbatim>\<open>new Date()\<close>, in milliseconds since the epoch.\<close>

definition Date_now :: "Env \<Rightarrow> int \<times> Env" where
  "Date_now env = (clock_stream env 0, env\<lparr>clock_stream := (\<lambda>n. clock_stream env (Suc n))\<rparr>)"

subsection \<open>Device registration\<close>

record SensorConfig =
  cfg_sensor_type :: SensorType
  cfg_unit :: string
  cfg_range :: "real \<times> real"
  cfg_accuracy :: real

record ConnectivityConfig =
  cfg_conn_type :: ConnectivityType
  cfg_strength :: real
  cfg_protocol :: string

record DeviceConfig =
  cfg_type :: DeviceType
  cfg_location :: GeoLocation
  cfg_sensors :: "SensorConfig list"
  cfg_connectivity :: ConnectivityConfig

text \<open>
  A handler is the closure that \<^verbatim>\<open>deployEdgeFunction\<close> registers; it captures the device
  identifier and the function code. Closures that foreign code passes to the public
  \<^verbatim>\<open>addEventListener\<close> are outside the model.
\<close>

datatype Handler = EdgeFunctionHandler string string

type_synonym HandlerMap = "(string \<times> Handler list) list"

record Service =
  devices :: "(string \<times> IoTDevice) list"
  sensorReadings :: ReadingStore
  eventHandlers :: HandlerMap

text \<open>The three maps of a new service are empty.\<close>

definition initialService :: Service where
  "initialService = \<lparr>devices = [], sensorReadings = [], eventHandlers = []\<rparr>"

text \<open>
  The callback of \<^verbatim>\<open>deviceConfig.sensors.map\<close>. The fields of the object literal are
  evaluated in the order they are written, so the sensor takes two identifiers and three
  readings of the clock.
\<close>

definition makeSensor :: "Env \<Rightarrow> SensorConfig \<Rightarrow> Sensor \<times> Env" where
  "makeSensor env sensorConfig =
     (let (sid, env1) = randomUUID env;
          (rid, env2) = randomUUID env1;
          (t_reading, env3) = Date_now env2;
          (t_last, env4) = Date_now env3;
          (t_now, env5) = Date_now env4
      in (\<lparr>sensor_id = sid,
           sensor_type = cfg_sensor_type sensorConfig,
           sensor_unit = cfg_unit sensorConfig,
           sensor_range = cfg_range sensorConfig,
           sensor_accuracy = cfg_accuracy sensorConfig,
           lastReading = \<lparr>reading_id = rid, reading_value = 0, reading_timestamp = t_reading,
                           reading_quality = good, reading_metadata = None\<rparr>,
           calibration = \<lparr>lastCalibrated = t_last,
                           nextCalibration = t_now + 30 * 24 * 60 * 60 * 1000,
                           cal_offset = 0, cal_scale = 1\<rparr>\<rparr>,
          env5))"

fun makeSensors :: "Env \<Rightarrow> SensorConfig list \<Rightarrow> Sensor list \<times> Env" where
  "makeSensors env [] = ([], env)"
| "makeSensors env (sensorConfig # rest) =
     (let (sensor, env1) = makeSensor env sensorConfig;
          (more, env2) = makeSensors env1 rest
      in (sensor # more, env2))"

text \<open>
  \<^verbatim>\<open>registerDevice\<close> has no \<^verbatim>\<open>throw\<close> and calls nothing that throws, so its result is not
  a sum. The health timer that \<^verbatim>\<open>startDeviceMonitoring\<close> starts is the step
  \<open>checkDeviceHealth\<close> below.
\<close>

definition registerDevice :: "Env \<Rightarrow> Service \<Rightarrow> DeviceConfig \<Rightarrow> IoTDevice \<times> Service \<times> Env" where
  "registerDevice env svc deviceConfig =
     (let (did, env1) = randomUUID env;
          (sensors1, env2) = makeSensors env1 (cfg_sensors deviceConfig);
          (t_seen, env3) = Date_now env2;
          (t_update, env4) = Date_now env3;
          (t_cert, env5) = Date_now env4;
          (t_scan, env6) = Date_now env5;
          device = \<lparr>device_id = did,
                    device_type = cfg_type deviceConfig,
                    device_location = cfg_location deviceConfig,
                    device_status = ''online'',
                    sensors = sensors1,
                    connectivity = \<lparr>conn_type = cfg_conn_type (cfg_connectivity deviceConfig),
                                     conn_strength = cfg_strength (cfg_connectivity deviceConfig),
                                     conn_protocol = cfg_protocol (cfg_connectivity deviceConfig),
                                     lastSeen = t_seen, dataUsage = 0\<rparr>,
                    firmware = \<lparr>fw_version = ''1.0.0'', lastUpdate = t_update,
                                 updateAvailable = False, autoUpdate = True\<rparr>,
                    security = \<lparr>encrypted = True,
                                 certificateExpiry = t_cert + 365 * 24 * 60 * 60 * 1000,
                                 lastSecurityScan = t_scan, vulnerabilities = []\<rparr>\<rparr>
      in (device,
          svc\<lparr>devices := AList.update did device (devices svc),
              sensorReadings := AList.update did [] (sensorReadings svc)\<rparr>,
          env6))"

subsection \<open>Synthesis of a reading\<close>

text \<open>
  The object literal \<^verbatim>\<open>baseValues\<close> is built on every call, whatever the type asked for: it
  reads the clock once and draws five random numbers, in the order of its fields. The
  fallback \<^verbatim>\<open>|| Math.random() * 100\<close> is taken when the type has no field (gps,
  accelerometer) and when the field is \<open>0\<close>, which is falsy.
\<close>

definition getBaseValueForSensor :: "Env \<Rightarrow> SensorType \<Rightarrow> GeoLocation \<Rightarrow> real \<times> Env" where
  "getBaseValueForSensor env ty location =
     (let (t, env1) = Date_now env;
          (r_humidity, env2) = Math_random env1;
          (r_pressure, env3) = Math_random env2;
          (r_motion, env4) = Math_random env3;
          (r_proximity, env5) = Math_random env4;
          (r_microphone, env6) = Math_random env5;
          baseValues = (\<lambda>k. case k of
               temperature \<Rightarrow> Some (20 + sin (real_of_int t / 86400000) * 10)
             | humidity \<Rightarrow> Some (50 + r_humidity * 30)
             | pressure \<Rightarrow> Some (1013 + r_pressure * 20 - 10)
             | motion \<Rightarrow> Some (r_motion * 50)
             | proximity \<Rightarrow> Some (if r_proximity > 0.7 then 1 else 0)
             | camera \<Rightarrow> Some 30
             | microphone \<Rightarrow> Some (40 + r_microphone * 40)
             | _ \<Rightarrow> None);
          fallback = (let (r, env7) = Math_random env6 in (r * 100, env7))
      in case baseValues ty of
           None \<Rightarrow> fallback
         | Some v \<Rightarrow> if v \<noteq> 0 then (v, env6) else fallback)"

definition generateSensorReading :: "Env \<Rightarrow> Sensor \<Rightarrow> IoTDevice \<Rightarrow> SensorReading \<times> Env" where
  "generateSensorReading env sensor device =
     (let (baseValue, env1) = getBaseValueForSensor env (sensor_type sensor) (device_location device);
          (r, env2) = Math_random env1;
          noise = (r - 0.5) * 0.1;
          v = max (fst (sensor_range sensor)) (min (snd (sensor_range sensor)) (baseValue + noise));
          (rid, env3) = randomUUID env2;
          (t, env4) = Date_now env3
      in (\<lparr>reading_id = rid,
           reading_value = v,
           reading_timestamp = t,
           reading_quality = assessDataQuality v sensor,
           reading_metadata = Some \<lparr>meta_deviceId = device_id device,
                                     meta_sensorType = sensor_type sensor,
                                     meta_location = device_location device,
                                     meta_connectivity = conn_strength (connectivity device)\<rparr>\<rparr>,
          env4))"

subsection \<open>Events and alerts\<close>

text \<open>\<^verbatim>\<open>this.eventHandlers.get(eventType) || []\<close>\<close>

definition handlersOf :: "HandlerMap \<Rightarrow> string \<Rightarrow> Handler list" where
  "handlersOf hm eventType = (case map_of hm eventType of None \<Rightarrow> [] | Some hs \<Rightarrow> hs)"

definition addEventListener :: "Service \<Rightarrow> string \<Rightarrow> Handler \<Rightarrow> Service" where
  "addEventListener svc eventType handler =
     svc\<lparr>eventHandlers :=
           AList.update eventType (handlersOf (eventHandlers svc) eventType @ [handler])
             (eventHandlers svc)\<rparr>"

text \<open>
  \<^verbatim>\<open>processAtEdge\<close> draws one random number (whether to send to the cloud) and reads the
  clock; \<^verbatim>\<open>executeEdgeFunction\<close> then only logs. Console output is not part of the model.
\<close>

definition processAtEdge :: "Env \<Rightarrow> string \<Rightarrow> (bool \<times> int) \<times> Env" where
  "processAtEdge env functionCode =
     (let (r, env1) = Math_random env;
          (t, env2) = Date_now env1
      in ((r > 0.8, t), env2))"

definition executeEdgeFunction :: "Env \<Rightarrow> string \<Rightarrow> string \<Rightarrow> Env" where
  "executeEdgeFunction env deviceId functionCode = snd (processAtEdge env functionCode)"

fun runHandler :: "Env \<Rightarrow> Handler \<Rightarrow> Env" where
  "runHandler env (EdgeFunctionHandler deviceId functionCode) =
     executeEdgeFunction env deviceId functionCode"

definition triggerEventHandlers :: "Env \<Rightarrow> HandlerMap \<Rightarrow> string \<Rightarrow> Env" where
  "triggerEventHandlers env hm eventType = foldl runHandler env (handlersOf hm eventType)"

record Alert =
  alert_type :: string
  alert_deviceId :: string
  alert_sensorId :: string
  alert_reading :: SensorReading
  alert_threshold :: "Threshold option"
  alert_severity :: Severity

text \<open>\<^verbatim>\<open>triggerAlert\<close> raises the alert and runs the handlers of \<^verbatim>\<open>alert:<type>\<close>.\<close>

definition triggerAlert :: "Env \<Rightarrow> HandlerMap \<Rightarrow> Alert \<Rightarrow> Alert list \<times> Env" where
  "triggerAlert env hm data = ([data], triggerEventHandlers env hm (''alert:'' @ alert_type data))"

definition processReading ::
  "Env \<Rightarrow> HandlerMap \<Rightarrow> ReadingStore \<Rightarrow> IoTDevice \<Rightarrow> Sensor \<Rightarrow> SensorReading \<Rightarrow> Alert list \<times> Env" where
  "processReading env hm store device sensor reading =
     (let isAnomaly = detectAnomaly store (device_id device) (sensor_id sensor) reading;
          (alerts1, env1) =
            (if isAnomaly
             then triggerAlert env hm
                    \<lparr>alert_type = ''anomaly'', alert_deviceId = device_id device,
                     alert_sensorId = sensor_id sensor, alert_reading = reading,
                     alert_threshold = None, alert_severity = medium\<rparr>
             else ([], env));
          thresholdViolation = checkThresholds sensor reading;
          (alerts2, env2) =
            (case thresholdViolation of
               Some violated \<Rightarrow>
                 triggerAlert env1 hm
                   \<lparr>alert_type = ''threshold'', alert_deviceId = device_id device,
                    alert_sensorId = sensor_id sensor, alert_reading = reading,
                    alert_threshold = Some violated, alert_severity = thr_severity violated\<rparr>
             | None \<Rightarrow> ([], env1));
          env3 = triggerEventHandlers env2 hm (''sensor:'' @ SensorType_str (sensor_type sensor))
      in (alerts1 @ alerts2, env3))"

subsection \<open>The poll cycle\<close>

text \<open>
  The body of the loop of \<^verbatim>\<open>collectSensorData\<close> that stores a reading: fetch the history
  (or the empty array), push, splice off the front beyond 1000 entries, and set.
\<close>

definition storeReading :: "ReadingStore \<Rightarrow> string \<Rightarrow> SensorReading \<Rightarrow> ReadingStore" where
  "storeReading store deviceId reading =
     (let pushed = readingsOf store deviceId @ [reading];
          deviceReadings = (if length pushed > 1000
                            then drop (length pushed - 1000) pushed
                            else pushed)
      in AList.update deviceId deviceReadings store)"

text \<open>
  The loop over the sensors of one device. The reading is stored and made the sensor's
  last reading before \<^verbatim>\<open>processReading\<close> runs, so the anomaly check sees a history that
  already ends with the new reading.
\<close>

fun collectSensors ::
  "Env \<Rightarrow> HandlerMap \<Rightarrow> IoTDevice \<Rightarrow> Sensor list \<Rightarrow> ReadingStore
     \<Rightarrow> Sensor list \<times> ReadingStore \<times> Alert list \<times> Env" where
  "collectSensors env hm device [] store = ([], store, [], env)"
| "collectSensors env hm device (sensor # rest) store =
     (let (reading, env1) = generateSensorReading env sensor device;
          store1 = storeReading store (device_id device) reading;
          sensor1 = sensor\<lparr>lastReading := reading\<rparr>;
          (alerts1, env2) = processReading env1 hm store1 device sensor1 reading;
          (rest1, store2, alerts2, env3) = collectSensors env2 hm device rest store1
      in (sensor1 # rest1, store2, alerts1 @ alerts2, env3))"

definition collectSensorData ::
  "Env \<Rightarrow> HandlerMap \<Rightarrow> IoTDevice \<Rightarrow> ReadingStore
     \<Rightarrow> IoTDevice \<times> ReadingStore \<times> Alert list \<times> Env" where
  "collectSensorData env hm device store =
     (let (sensors1, store1, alerts, env1) = collectSensors env hm device (sensors device) store
      in (device\<lparr>sensors := sensors1\<rparr>, store1, alerts, env1))"

text \<open>
  The callback of the five-second timer of \<^verbatim>\<open>startDataCollection\<close>: every device of the
  registry, in insertion order, collected when its status is \<^verbatim>\<open>'online'\<close>. The callback runs
  to completion: no other operation of the service is interleaved at its \<^verbatim>\<open>await\<close>s.
\<close>

definition pollDevice ::
  "Env \<Rightarrow> HandlerMap \<Rightarrow> IoTDevice \<Rightarrow> ReadingStore
     \<Rightarrow> IoTDevice \<times> ReadingStore \<times> Alert list \<times> Env" where
  "pollDevice env hm device store =
     (if device_status device = ''online''
      then collectSensorData env hm device store
      else (device, store, [], env))"

fun pollDevices ::
  "Env \<Rightarrow> HandlerMap \<Rightarrow> (string \<times> IoTDevice) list \<Rightarrow> ReadingStore
     \<Rightarrow> (string \<times> IoTDevice) list \<times> ReadingStore \<times> Alert list \<times> Env" where
  "pollDevices env hm [] store = ([], store, [], env)"
| "pollDevices env hm ((k, device) # rest) store =
     (let (device1, store1, alerts1, env1) = pollDevice env hm device store;
          (rest1, store2, alerts2, env2) = pollDevices env1 hm rest store1
      in ((k, device1) # rest1, store2, alerts1 @ alerts2, env2))"

definition pollCycle :: "Env \<Rightarrow> Service \<Rightarrow> Service \<times> Alert list \<times> Env" where
  "pollCycle env svc =
     (let (devices1, store1, alerts, env1) =
            pollDevices env (eventHandlers svc) (devices svc) (sensorReadings svc)
      in (svc\<lparr>devices := devices1, sensorReadings := store1\<rparr>, alerts, env1))"

text \<open>The timer firing \<open>n\<close> times in a row.\<close>

fun pollCycles :: "nat \<Rightarrow> Env \<Rightarrow> Service \<Rightarrow> Service \<times> Alert list \<times> Env" where
  "pollCycles 0 env svc = (svc, [], env)"
| "pollCycles (Suc n) env svc =
     (let (svc1, alerts1, env1) = pollCycle env svc;
          (svc2, alerts2, env2) = pollCycles n env1 svc1
      in (svc2, alerts1 @ alerts2, env2))"

subsection \<open>Operations that name a device\<close>

text \<open>
  A \<^verbatim>\<open>throw new Error(msg)\<close> is the left injection of the result. Every operation returns
  the state of the service with its result, so that what a failed call leaves behind can
  be stated.
\<close>

datatype Error = Error string

definition deployEdgeFunction ::
  "Service \<Rightarrow> string \<Rightarrow> string \<Rightarrow> string list \<Rightarrow> (Error + unit) \<times> Service" where
  "deployEdgeFunction svc deviceId functionCode triggers =
     (case map_of (devices svc) deviceId of
        None \<Rightarrow> (Inl (Error ''Device not found''), svc)
      | Some device \<Rightarrow>
          (Inr (),
           foldl (\<lambda>s trigger. addEventListener s trigger (EdgeFunctionHandler deviceId functionCode))
             svc triggers))"

definition scanForVulnerabilities :: "Env \<Rightarrow> IoTDevice \<Rightarrow> Vulnerability list \<times> Env" where
  "scanForVulnerabilities env device =
     (let (r, env1) = Math_random env
      in (if r > 0.8
          then [\<lparr>vuln_severity = medium, vuln_description = ''Outdated firmware version'',
                 vuln_cve = None, vuln_mitigation = ''Update to latest firmware version''\<rparr>]
          else [],
          env1))"

fun penalties :: "Severity \<Rightarrow> real" where
  "penalties low = 5"
| "penalties medium = 15"
| "penalties high = 30"
| "penalties critical = 50"

definition calculateSecurityScore :: "Vulnerability list \<Rightarrow> real" where
  "calculateSecurityScore vulns =
     max 0 (foldl (\<lambda>score vuln. score - penalties (vuln_severity vuln)) 100 vulns)"

definition generateSecurityRecommendations :: "Vulnerability list \<Rightarrow> string list" where
  "generateSecurityRecommendations vulns =
     [''Enable automatic security updates''] @
     (if list_ex (\<lambda>v. vuln_severity v = critical) vulns
      then [''Isolate device until critical vulnerabilities are patched'']
      else [])"

record ScanResult =
  res_vulnerabilities :: "Vulnerability list"
  res_score :: real
  res_recommendations :: "string list"

definition performSecurityScan ::
  "Env \<Rightarrow> Service \<Rightarrow> string \<Rightarrow> (Error + ScanResult) \<times> Service \<times> Env" where
  "performSecurityScan env svc deviceId =
     (case map_of (devices svc) deviceId of
        None \<Rightarrow> (Inl (Error ''Device not found''), svc, env)
      | Some device \<Rightarrow>
          (let (vulns, env1) = scanForVulnerabilities env device;
               score = calculateSecurityScore vulns;
               recommendations = generateSecurityRecommendations vulns;
               (t, env2) = Date_now env1;
               device1 = device\<lparr>security := (security device)\<lparr>lastSecurityScan := t,
                                                               vulnerabilities := vulns\<rparr>\<rparr>
           in (Inr \<lparr>res_vulnerabilities = vulns, res_score = score,
                    res_recommendations = recommendations\<rparr>,
               svc\<lparr>devices := AList.update deviceId device1 (devices svc)\<rparr>,
               env2)))"

definition getLatestFirmwareVersion :: "DeviceType \<Rightarrow> string" where
  "getLatestFirmwareVersion deviceType = ''2.1.0''"

text \<open>
  \<^verbatim>\<open>version || await this.getLatestFirmwareVersion(device.type)\<close>: an empty version string
  is falsy. The two seconds of \<^verbatim>\<open>performFirmwareUpdate\<close> change nothing in the service.
\<close>

definition updateDeviceFirmware ::
  "Env \<Rightarrow> Service \<Rightarrow> string \<Rightarrow> string option \<Rightarrow> (Error + unit) \<times> Service \<times> Env" where
  "updateDeviceFirmware env svc deviceId version =
     (case map_of (devices svc) deviceId of
        None \<Rightarrow> (Inl (Error ''Device not found''), svc, env)
      | Some device \<Rightarrow>
          (let targetVersion = (case version of
                                  None \<Rightarrow> getLatestFirmwareVersion (device_type device)
                                | Some v \<Rightarrow> if v \<noteq> [] then v
                                            else getLatestFirmwareVersion (device_type device));
               (t, env1) = Date_now env;
               device1 = device\<lparr>firmware := (firmware device)\<lparr>fw_version := targetVersion,
                                                               lastUpdate := t,
                                                               updateAvailable := False\<rparr>\<rparr>
           in (Inr (), svc\<lparr>devices := AList.update deviceId device1 (devices svc)\<rparr>, env1)))"

text \<open>
  The callback of the thirty-second timer that \<^verbatim>\<open>startDeviceMonitoring\<close> starts for a
  registered device.
\<close>

definition checkDeviceHealth :: "Env \<Rightarrow> Service \<Rightarrow> string \<Rightarrow> Service \<times> Env" where
  "checkDeviceHealth env svc deviceId =
     (case map_of (devices svc) deviceId of
        None \<Rightarrow> (svc, env)
      | Some device \<Rightarrow>
          (let (r, env1) = Math_random env;
               isOnline = (r > 0.05);
               device1 = device\<lparr>device_status := (if isOnline then ''online'' else ''offline'')\<rparr>;
               (device2, env2) =
                 (if isOnline
                  then (let (t, env') = Date_now env1
                        in (device1\<lparr>connectivity := (connectivity device1)\<lparr>lastSeen := t\<rparr>\<rparr>, env'))
                  else (device1, env1))
           in (svc\<lparr>devices := AList.update deviceId device2 (devices svc)\<rparr>, env2)))"

subsection \<open>Reachable states of the service\<close>

text \<open>
  A state is reachable when it is the new service or follows a reachable state by one
  operation of the service, under any environment.
\<close>

inductive reachable :: "Service \<Rightarrow> bool" where
  r_init: "reachable initialService"
| r_register: "reachable svc \<Longrightarrow> registerDevice env svc deviceConfig = (device, svc', env')
     \<Longrightarrow> reachable svc'"
| r_poll: "reachable svc \<Longrightarrow> pollCycle env svc = (svc', alerts, env') \<Longrightarrow> reachable svc'"
| r_health: "reachable svc \<Longrightarrow> checkDeviceHealth env svc deviceId = (svc', env')
     \<Longrightarrow> reachable svc'"
| r_deploy: "reachable svc \<Longrightarrow> deployEdgeFunction svc deviceId functionCode triggers = (res, svc')
     \<Longrightarrow> reachable svc'"
| r_scan: "reachable svc \<Longrightarrow> performSecurityScan env svc deviceId = (scanned, svc', env')
     \<Longrightarrow> reachable svc'"
| r_firmware: "reachable svc \<Longrightarrow> updateDeviceFirmware env svc deviceId version = (res, svc', env')
     \<Longrightarrow> reachable svc'"

text \<open>
  A run of the service: the states and environments that follow the new service under
  the environment \<open>env0\<close> when every operation continues with the environment that the
  operation before it has left.
\<close>

inductive run :: "Env \<Rightarrow> Service \<times> Env \<Rightarrow> bool" for env0 :: Env where
  run_init: "run env0 (initialService, env0)"
| run_register: "run env0 (svc, env) \<Longrightarrow> registerDevice env svc deviceConfig = (device, svc', env')
     \<Longrightarrow> run env0 (svc', env')"
| run_poll: "run env0 (svc, env) \<Longrightarrow> pollCycle env svc = (svc', alerts, env')
     \<Longrightarrow> run env0 (svc', env')"
| run_health: "run env0 (svc, env) \<Longrightarrow> checkDeviceHealth env svc deviceId = (svc', env')
     \<Longrightarrow> run env0 (svc', env')"
| run_deploy: "run env0 (svc, env)
     \<Longrightarrow> deployEdgeFunction svc deviceId functionCode triggers = (res, svc')
     \<Longrightarrow> run env0 (svc', env)"
| run_scan: "run env0 (svc, env) \<Longrightarrow> performSecurityScan env svc deviceId = (scanned, svc', env')
     \<Longrightarrow> run env0 (svc', env')"
| run_firmware: "run env0 (svc, env)
     \<Longrightarrow> updateDeviceFirmware env svc deviceId version = (res, svc', env')
     \<Longrightarrow> run env0 (svc', env')"

subsection \<open>The deployments of the source\<close>

text \<open>
  The sensor lists that \<^verbatim>\<open>deployTrafficSensors\<close> and \<^verbatim>\<open>deployParkingSensors\<close> register for
  every intersection and parking spot.
\<close>

definition trafficSensors :: "SensorConfig list" where
  "trafficSensors =
     [\<lparr>cfg_sensor_type = camera, cfg_unit = ''fps'', cfg_range = (0, 60), cfg_accuracy = 0.95\<rparr>,
      \<lparr>cfg_sensor_type = motion, cfg_unit = ''vehicles/min'', cfg_range = (0, 100),
        cfg_accuracy = 0.9\<rparr>,
      \<lparr>cfg_sensor_type = proximity, cfg_unit = ''meters'', cfg_range = (0, 50),
        cfg_accuracy = 0.8\<rparr>]"

definition parkingSensors :: "SensorConfig list" where
  "parkingSensors =
     [\<lparr>cfg_sensor_type = proximity, cfg_unit = ''occupied'', cfg_range = (0, 1),
        cfg_accuracy = 0.95\<rparr>,
      \<lparr>cfg_sensor_type = camera, cfg_unit = ''fps'', cfg_range = (0, 30), cfg_accuracy = 0.9\<rparr>]"

definition trafficDevice :: "GeoLocation \<Rightarrow> DeviceConfig" where
  "trafficDevice intersection =
     \<lparr>cfg_type = dt_sensor, cfg_location = intersection, cfg_sensors = trafficSensors,
      cfg_connectivity = \<lparr>cfg_conn_type = cellular, cfg_strength = 85, cfg_protocol = ''5G''\<rparr>\<rparr>"

definition parkingDevice :: "GeoLocation \<Rightarrow> DeviceConfig" where
  "parkingDevice spot =
     \<lparr>cfg_type = dt_sensor, cfg_location = spot, cfg_sensors = parkingSensors,
      cfg_connectivity = \<lparr>cfg_conn_type = lora, cfg_strength = 75, cfg_protocol = ''LoRaWAN''\<rparr>\<rparr>"

subsection \<open>Notions of the specification\<close>

text \<open>
  The readings that one poll cycle has appended to the history of a device: the readings
  now in the last-reading slots of its sensors, when the device is online.
\<close>

definition polledReadings :: "string \<Rightarrow> (string \<times> IoTDevice) list \<Rightarrow> SensorReading list" where
  "polledReadings deviceId entries =
     concat (map (\<lambda>(k, device).
        if device_id device = deviceId \<and> device_status device = ''online''
        then map lastReading (sensors device) else []) entries)"

text \<open>Mean and (population) standard deviation of a list of numbers.\<close>

definition mean :: "real list \<Rightarrow> real" where
  "mean xs = sum_list xs / real (length xs)"

definition std_dev :: "real list \<Rightarrow> real" where
  "std_dev xs = sqrt (sum_list (map (\<lambda>x. (x - mean xs)\<^sup>2) xs) / real (length xs))"

text \<open>
  Mean and standard deviation in double arithmetic: the sum runs from the first element to
  the last, starting from zero, and every sum, quotient, difference, square and the
  square root is rounded.
\<close>

definition double_sum :: "js_number list \<Rightarrow> js_number" where
  "double_sum xs = foldl js_add (Num 0) xs"

definition double_mean :: "real list \<Rightarrow> js_number" where
  "double_mean xs = js_div (double_sum (map Num xs)) (Num (real (length xs)))"

definition double_std_dev :: "real list \<Rightarrow> js_number" where
  "double_std_dev xs =
     Math_sqrt (js_div (double_sum (map (\<lambda>x. Math_pow2 (js_sub (Num x) (double_mean xs))) xs))
                  (Num (real (length xs))))"

text \<open>The double with the integer significand \<open>m\<close> and the exponent \<open>e\<close>.\<close>

definition dbl :: "int \<Rightarrow> int \<Rightarrow> real" where
  "dbl m e = real_of_int m * 2 powi e"

text \<open>
  The readings of one sensor within the history of its device. A stored reading does not
  carry the identifier of its sensor, only the sensor type in its metadata.
\<close>

definition readingsOfSensor :: "ReadingStore \<Rightarrow> string \<Rightarrow> SensorType \<Rightarrow> SensorReading list" where
  "readingsOfSensor store deviceId ty =
     filter (\<lambda>r. map_option meta_sensorType (reading_metadata r) = Some ty)
       (readingsOf store deviceId)"

subsection \<open>Sample values\<close>

definition sample_env :: "real \<Rightarrow> Env" where
  "sample_env r =
     \<lparr>uuid_stream = (\<lambda>n. replicate (Suc n) (CHR ''u'')),
      random_stream = (\<lambda>n. r),
      clock_stream = (\<lambda>n. 1000 + int n)\<rparr>"

definition sample_location :: "real \<Rightarrow> real \<Rightarrow> GeoLocation" where
  "sample_location la lo = \<lparr>lat = la, lng = lo, address = None\<rparr>"

definition sample_reading :: "string \<Rightarrow> SensorType \<Rightarrow> real \<Rightarrow> SensorReading" where
  "sample_reading deviceId ty v =
     \<lparr>reading_id = ''r'', reading_value = v, reading_timestamp = 0, reading_quality = good,
      reading_metadata = Some \<lparr>meta_deviceId = deviceId, meta_sensorType = ty,
                                meta_location = sample_location 0 0, meta_connectivity = 85\<rparr>\<rparr>"

definition sample_sensor :: "string \<Rightarrow> SensorType \<Rightarrow> real \<times> real \<Rightarrow> real \<Rightarrow> Sensor" where
  "sample_sensor sid ty rng acc =
     \<lparr>sensor_id = sid, sensor_type = ty, sensor_unit = ''unit'', sensor_range = rng,
      sensor_accuracy = acc,
      lastReading = \<lparr>reading_id = ''r0'', reading_value = 0, reading_timestamp = 0,
                      reading_quality = good, reading_metadata = None\<rparr>,
      calibration = \<lparr>lastCalibrated = 0, nextCalibration = 2592000000, cal_offset = 0,
                      cal_scale = 1\<rparr>\<rparr>"

definition sample_device :: "string \<Rightarrow> DeviceStatus \<Rightarrow> GeoLocation \<Rightarrow> Sensor list \<Rightarrow> IoTDevice" where
  "sample_device did status location ss =
     \<lparr>device_id = did, device_type = dt_sensor, device_location = location,
      device_status = status, sensors = ss,
      connectivity = \<lparr>conn_type = cellular, conn_strength = 85, conn_protocol = ''5G'',
                       lastSeen = 0, dataUsage = 0\<rparr>,
      firmware = \<lparr>fw_version = ''1.0.0'', lastUpdate = 0, updateAvailable = False,
                   autoUpdate = True\<rparr>,
      security = \<lparr>encrypted = True, certificateExpiry = 0, lastSecurityScan = 0,
                   vulnerabilities = []\<rparr>\<rparr>"

text \<open>
  A history as seven poll cycles leave it for a device with a camera and a pressure
  sensor: the camera reads 30 every time, the pressure sensor 1013 six times and then 1020.
\<close>

definition mixed_history :: "SensorReading list" where
  "mixed_history =
     concat (replicate 6 [sample_reading ''d'' camera 30, sample_reading ''d'' pressure 1013]) @
     [sample_reading ''d'' camera 30, sample_reading ''d'' pressure 1020]"

text \<open>A service with one parking device, registered under a constant random source.\<close>

definition sample_service :: Service where
  "sample_service =
     fst (snd (registerDevice (sample_env (9/10)) initialService
                 (parkingDevice (sample_location 0 0))))"

section \<open>Properties\<close>

subsection \<open>Lists and maps\<close>

lemma slice_last_length: "length (slice_last n xs) \<le> n"
  by (simp add: slice_last_def)

lemma slice_last_id: "length xs \<le> n \<Longrightarrow> slice_last n xs = xs"
  by (simp add: slice_last_def)

lemma slice_last_append_absorb:
  "slice_last n (slice_last n xs @ ys) = slice_last n (xs @ ys)"
proof (cases "length xs \<le> n")
  case True
  then show ?thesis by (simp add: slice_last_id)
next
  case False
  define k where "k = length xs - n"
  have len: "length (drop k xs) = n" using False by (simp add: k_def)
  have A: "slice_last n xs = drop k xs" by (simp add: slice_last_def k_def)
  have "length (drop k xs @ ys) - n = length ys" using len by simp
  then have B: "slice_last n (drop k xs @ ys) = drop (length ys) (drop k xs @ ys)"
    unfolding slice_last_def by (simp only:)
  have "length (xs @ ys) - n = length ys + k" using False by (simp add: k_def)
  then have C: "slice_last n (xs @ ys) = drop (length ys + k) (xs @ ys)"
    unfolding slice_last_def by (simp only:)
  have D: "drop (length ys + k) (xs @ ys) = drop (length ys) (drop k (xs @ ys))"
    by (simp only: drop_drop)
  have E: "drop k (xs @ ys) = drop k xs @ ys" by (simp add: k_def)
  show ?thesis by (simp only: A B C D E)
qed

lemma list_all2_right_member:
  "list_all2 P xs ys \<Longrightarrow> y \<in> set ys \<Longrightarrow> \<exists>x\<in>set xs. P x y"
  by (induction rule: list_all2_induct) auto

lemma readingsOf_update:
  "readingsOf (AList.update k v store) d = (if d = k then v else readingsOf store d)"
  by (simp add: readingsOf_def update_conv')

lemma readingsOf_storeReading:
  "readingsOf (storeReading store k r) d =
     (if d = k then slice_last 1000 (readingsOf store k @ [r]) else readingsOf store d)"
  by (simp add: storeReading_def Let_def readingsOf_update slice_last_def)

subsection \<open>The synthesis step\<close>

lemma generateSensorReading_value:
  "reading_value (fst (generateSensorReading env sensor device)) =
     max (fst (sensor_range sensor)) (min (snd (sensor_range sensor))
       (fst (getBaseValueForSensor env (sensor_type sensor) (device_location device)) +
        (fst (Math_random (snd (getBaseValueForSensor env (sensor_type sensor)
                                  (device_location device)))) - 0.5) * 0.1))"
  by (simp add: generateSensorReading_def Let_def split: prod.splits)


subsection \<open>One device, one poll\<close>

lemma collectSensors_Cons_store:
  "fst (snd (collectSensors env hm device (s # ss) store)) =
     fst (snd (collectSensors
        (snd (processReading (snd (generateSensorReading env s device)) hm
               (storeReading store (device_id device) (fst (generateSensorReading env s device)))
               device (s\<lparr>lastReading := fst (generateSensorReading env s device)\<rparr>)
               (fst (generateSensorReading env s device))))
        hm device ss
        (storeReading store (device_id device) (fst (generateSensorReading env s device)))))"
  by (simp add: Let_def split: prod.splits)

lemma collectSensors_Cons_sensors:
  "fst (collectSensors env hm device (s # ss) store) =
     s\<lparr>lastReading := fst (generateSensorReading env s device)\<rparr> #
     fst (collectSensors
        (snd (processReading (snd (generateSensorReading env s device)) hm
               (storeReading store (device_id device) (fst (generateSensorReading env s device)))
               device (s\<lparr>lastReading := fst (generateSensorReading env s device)\<rparr>)
               (fst (generateSensorReading env s device))))
        hm device ss
        (storeReading store (device_id device) (fst (generateSensorReading env s device))))"
  by (simp add: Let_def split: prod.splits)

lemma collectSensors_other:
  "d \<noteq> device_id device \<Longrightarrow>
   readingsOf (fst (snd (collectSensors env hm device ss store))) d = readingsOf store d"
proof (induction ss arbitrary: env store)
  case Nil
  then show ?case by simp
next
  case (Cons s ss)
  show ?case
    unfolding collectSensors_Cons_store
    using Cons.prems by (simp add: Cons.IH readingsOf_storeReading)
qed

lemma collectSensors_fifo:
  "length (readingsOf store (device_id device)) \<le> 1000 \<Longrightarrow>
   readingsOf (fst (snd (collectSensors env hm device ss store))) (device_id device) =
     slice_last 1000 (readingsOf store (device_id device) @
        map lastReading (fst (collectSensors env hm device ss store)))"
proof (induction ss arbitrary: env store)
  case Nil
  then show ?case by (simp add: slice_last_id)
next
  case (Cons s ss)
  have le: "length (readingsOf (storeReading store (device_id device)
               (fst (generateSensorReading env s device))) (device_id device)) \<le> 1000"
    by (simp add: readingsOf_storeReading slice_last_length)
  show ?case
    unfolding collectSensors_Cons_store collectSensors_Cons_sensors
    by (simp add: Cons.IH[OF le] readingsOf_storeReading slice_last_append_absorb)
qed

text \<open>
  Every sensor leaves the loop unchanged but for its last reading, which is a reading
  that the synthesis step produced for it.
\<close>

lemma collectSensors_sensors:
  "list_all2 (\<lambda>s s'. \<exists>e. s' = s\<lparr>lastReading := fst (generateSensorReading e s device)\<rparr>)
     ss (fst (collectSensors env hm device ss store))"
proof (induction ss arbitrary: env store)
  case Nil
  then show ?case by simp
next
  case (Cons s ss)
  have "\<exists>e. s\<lparr>lastReading := fst (generateSensorReading env s device)\<rparr> =
             s\<lparr>lastReading := fst (generateSensorReading e s device)\<rparr>"
    by blast
  then show ?case
    unfolding collectSensors_Cons_sensors
    using Cons.IH by simp
qed

lemma collectSensorData_device:
  "fst (collectSensorData env hm device store) =
     device\<lparr>sensors := fst (collectSensors env hm device (sensors device) store)\<rparr>"
  by (simp add: collectSensorData_def split: prod.splits)

lemma collectSensorData_store:
  "fst (snd (collectSensorData env hm device store)) =
     fst (snd (collectSensors env hm device (sensors device) store))"
  by (simp add: collectSensorData_def split: prod.splits)

lemma collectSensorData_sensor:
  assumes "s' \<in> set (sensors (fst (collectSensorData env hm device store)))"
  obtains s e where "s \<in> set (sensors device)"
    and "s' = s\<lparr>lastReading := fst (generateSensorReading e s device)\<rparr>"
proof -
  from assms have "s' \<in> set (fst (collectSensors env hm device (sensors device) store))"
    by (simp add: collectSensorData_device)
  from list_all2_right_member[OF collectSensors_sensors this]
  obtain s where "s \<in> set (sensors device)"
    and "\<exists>e. s' = s\<lparr>lastReading := fst (generateSensorReading e s device)\<rparr>"
    by blast
  then show thesis using that by blast
qed

lemma pollDevices_Cons_entries:
  "fst (pollDevices env hm ((k, device) # rest) store) =
     (k, fst (pollDevice env hm device store)) #
     fst (pollDevices (snd (snd (snd (pollDevice env hm device store)))) hm rest
            (fst (snd (pollDevice env hm device store))))"
  by (simp add: Let_def split: prod.splits)

lemma pollDevices_Cons_store:
  "fst (snd (pollDevices env hm ((k, device) # rest) store)) =
     fst (snd (pollDevices (snd (snd (snd (pollDevice env hm device store)))) hm rest
            (fst (snd (pollDevice env hm device store)))))"
  by (simp add: Let_def split: prod.splits)

lemma pollDevices_entries:
  "list_all2 (\<lambda>e e'. fst e' = fst e \<and> (\<exists>env' st. snd e' = fst (pollDevice env' hm (snd e) st)))
     entries (fst (pollDevices env hm entries store))"
proof (induction entries arbitrary: env store)
  case Nil
  then show ?case by simp
next
  case (Cons e entries)
  obtain k device where e: "e = (k, device)" by (cases e)
  show ?case
    unfolding e pollDevices_Cons_entries
    using Cons.IH by auto
qed

lemma pollCycle_device:
  assumes "(k, d') \<in> set (devices (fst (pollCycle env svc)))"
  obtains d env' st where "(k, d) \<in> set (devices svc)"
    and "d' = fst (pollDevice env' (eventHandlers svc) d st)"
proof -
  have "fst (pollCycle env svc) =
     svc\<lparr>devices := fst (pollDevices env (eventHandlers svc) (devices svc) (sensorReadings svc)),
         sensorReadings :=
           fst (snd (pollDevices env (eventHandlers svc) (devices svc) (sensorReadings svc)))\<rparr>"
    by (simp add: pollCycle_def split: prod.splits)
  with assms have "(k, d') \<in> set (fst (pollDevices env (eventHandlers svc) (devices svc) (sensorReadings svc)))"
    by simp
  from list_all2_right_member[OF pollDevices_entries this]
  obtain e where "e \<in> set (devices svc)" "k = fst e"
    "\<exists>env' st. d' = fst (pollDevice env' (eventHandlers svc) (snd e) st)"
    by auto
  then show thesis using that[of "snd e"] by (cases e) auto
qed

subsection \<open>Evaluation on the sample values\<close>

lemmas env_defs = randomUUID_def Math_random_def Date_now_def sample_env_def

lemmas sample_defs = sample_service_def registerDevice_def makeSensor_def parkingDevice_def
  parkingSensors_def initialService_def sample_location_def sample_sensor_def sample_device_def
  sample_reading_def

lemmas poll_defs = pollCycle_def pollDevice_def collectSensorData_def generateSensorReading_def
  getBaseValueForSensor_def processReading_def storeReading_def readingsOf_def detectAnomaly_def
  slice_last_def checkThresholds_def triggerEventHandlers_def handlersOf_def assessDataQuality_def

lemma sample_service_polled:
  "map (\<lambda>(k, d). (k, device_status d,
          map (\<lambda>s. (sensor_range s, sensor_accuracy s, reading_value (lastReading s),
                     reading_quality (lastReading s))) (sensors d)))
     (devices (fst (pollCycle (sample_env (9/10)) sample_service))) =
   [(''u'', ''online'', [((0, 1), 95/100, 1, excellent), ((0, 30), 9/10, 30, good)])]"
  by (simp add: sample_defs env_defs poll_defs Let_def)

subsection \<open>Readings stay within the range of their sensor\<close>

lemma in_range_generated:
  "fst (sensor_range sensor) \<le> snd (sensor_range sensor) \<Longrightarrow>
     fst (sensor_range sensor) \<le> reading_value (fst (generateSensorReading env sensor device)) \<and>
     reading_value (fst (generateSensorReading env sensor device)) \<le> snd (sensor_range sensor)"
  by (simp add: generateSensorReading_value)

lemma pollCycle_online_sensor:
  assumes "(k, d) \<in> set (devices (fst (pollCycle env svc)))" and "device_status d = ''online''"
    and "s \<in> set (sensors d)"
  obtains d0 s0 e0 where "(k, d0) \<in> set (devices svc)" and "s0 \<in> set (sensors d0)"
    and "s = s0\<lparr>lastReading := fst (generateSensorReading e0 s0 d0)\<rparr>"
proof -
  from assms(1) obtain d0 env' st where d0: "(k, d0) \<in> set (devices svc)"
    and d: "d = fst (pollDevice env' (eventHandlers svc) d0 st)"
    by (rule pollCycle_device)
  have "device_status d0 = ''online''"
    using assms(2) d by (auto simp: pollDevice_def collectSensorData_device split: if_splits)
  then have "d = fst (collectSensorData env' (eventHandlers svc) d0 st)"
    using d by (simp add: pollDevice_def)
  with assms(3) obtain s0 e0 where "s0 \<in> set (sensors d0)"
    and "s = s0\<lparr>lastReading := fst (generateSensorReading e0 s0 d0)\<rparr>"
    by (auto elim: collectSensorData_sensor)
  with d0 show thesis using that by blast
qed

text \<open>
  \<^bold>\<open>C1\<close>. Every reading that the synthesis step produces has its value within the declared
  range of its sensor, whatever the clock and the random draws, provided the lower bound
  of the range is not above the upper bound. Hence, after a poll cycle, the last reading of
  every sensor of every online device of the registry lies within the range of the sensor.
\<close>

theorem reading_within_range:
  "(fst (sensor_range sensor) \<le> snd (sensor_range sensor) \<longrightarrow>
      fst (sensor_range sensor) \<le> reading_value (fst (generateSensorReading env sensor device)) \<and>
      reading_value (fst (generateSensorReading env sensor device)) \<le> snd (sensor_range sensor)) \<and>
   (\<forall>(k, d) \<in> set (devices (fst (pollCycle env svc))). device_status d = ''online'' \<longrightarrow>
      (\<forall>s \<in> set (sensors d). fst (sensor_range s) \<le> snd (sensor_range s) \<longrightarrow>
         fst (sensor_range s) \<le> reading_value (lastReading s) \<and>
         reading_value (lastReading s) \<le> snd (sensor_range s)))"
proof (intro conjI impI ballI, goal_cases)
  case 1 then show ?case using in_range_generated by blast
next
  case 2 then show ?case using in_range_generated by blast
next
  case (3 e)
  show ?case
  proof (clarify)
    fix k d s
    assume "e = (k, d)" and "device_status d = ''online''" and "s \<in> set (sensors d)"
      and rng: "fst (sensor_range s) \<le> snd (sensor_range s)"
    with 3 obtain d0 s0 e0 where "s = s0\<lparr>lastReading := fst (generateSensorReading e0 s0 d0)\<rparr>"
      by (auto elim: pollCycle_online_sensor)
    then show "fst (sensor_range s) \<le> reading_value (lastReading s) \<and>
         reading_value (lastReading s) \<le> snd (sensor_range s)"
      using rng in_range_generated[of s0 e0 d0] by simp
  qed
qed

theorem reading_within_range_witness:
  "fst (sensor_range (sample_sensor ''s'' camera (0, 30) (9/10)))
     \<le> snd (sensor_range (sample_sensor ''s'' camera (0, 30) (9/10))) \<and>
   0 \<le> reading_value (fst (generateSensorReading (sample_env (9/10))
       (sample_sensor ''s'' camera (0, 30) (9/10))
       (sample_device ''d'' ''online'' (sample_location 0 0) []))) \<and>
   reading_value (fst (generateSensorReading (sample_env (9/10))
       (sample_sensor ''s'' camera (0, 30) (9/10))
       (sample_device ''d'' ''online'' (sample_location 0 0) []))) \<le> 30 \<and>
   map (\<lambda>(k, d). (k, device_status d,
          map (\<lambda>s. (sensor_range s, sensor_accuracy s, reading_value (lastReading s),
                     reading_quality (lastReading s))) (sensors d)))
     (devices (fst (pollCycle (sample_env (9/10)) sample_service))) =
   [(''u'', ''online'', [((0, 1), 95/100, 1, excellent), ((0, 30), 9/10, 30, good)])]"
proof -
  let ?S = "sample_sensor ''s'' camera (0, 30) (9/10)"
  have hyp: "fst (sensor_range ?S) \<le> snd (sensor_range ?S)"
    by (simp add: sample_sensor_def)
  from reading_within_range[of ?S "sample_env (9/10)"
      "sample_device ''d'' ''online'' (sample_location 0 0) []" sample_service] hyp
  have "fst (sensor_range ?S) \<le> reading_value (fst (generateSensorReading (sample_env (9/10)) ?S
           (sample_device ''d'' ''online'' (sample_location 0 0) []))) \<and>
        reading_value (fst (generateSensorReading (sample_env (9/10)) ?S
           (sample_device ''d'' ''online'' (sample_location 0 0) []))) \<le> snd (sensor_range ?S)"
    by blast
  then show ?thesis
    using sample_service_polled by (simp add: sample_sensor_def)
qed

subsection \<open>Thresholds\<close>

lemma processReading_alerts:
  "fst (processReading env hm store device sensor reading) =
     (if detectAnomaly store (device_id device) (sensor_id sensor) reading
      then [\<lparr>alert_type = ''anomaly'', alert_deviceId = device_id device,
              alert_sensorId = sensor_id sensor, alert_reading = reading,
              alert_threshold = None, alert_severity = medium\<rparr>]
      else []) @
     (case checkThresholds sensor reading of
        None \<Rightarrow> []
      | Some violated \<Rightarrow>
          [\<lparr>alert_type = ''threshold'', alert_deviceId = device_id device,
            alert_sensorId = sensor_id sensor, alert_reading = reading,
            alert_threshold = Some violated, alert_severity = thr_severity violated\<rparr>])"
  by (simp add: processReading_def triggerAlert_def Let_def split: option.splits prod.splits)

text \<open>
  \<^bold>\<open>C7\<close>. The threshold check is a function of the sensor type and the value of the reading
  alone: two invocations that agree on both return the same verdict, whatever the other
  fields of the sensor and of the reading are. The check takes no other input.
\<close>

theorem checkThresholds_deterministic:
  "sensor_type s1 = sensor_type s2 \<Longrightarrow> reading_value r1 = reading_value r2 \<Longrightarrow>
   checkThresholds s1 r1 = checkThresholds s2 r2"
  by (simp add: checkThresholds_def split: option.splits)

theorem checkThresholds_deterministic_witness:
  "sensor_type (sample_sensor ''s1'' motion (0, 100) (9/10)) =
     sensor_type (sample_sensor ''s2'' motion (0, 500) (1/2)) \<and>
   reading_value (sample_reading ''d1'' motion 90) = reading_value (sample_reading ''d2'' camera 90) \<and>
   checkThresholds (sample_sensor ''s1'' motion (0, 100) (9/10)) (sample_reading ''d1'' motion 90) =
     checkThresholds (sample_sensor ''s2'' motion (0, 500) (1/2)) (sample_reading ''d2'' camera 90) \<and>
   checkThresholds (sample_sensor ''s1'' motion (0, 100) (9/10)) (sample_reading ''d1'' motion 90) =
     Some \<lparr>thr_min = 0, thr_max = 80, thr_severity = high\<rparr>"
proof -
  have t: "sensor_type (sample_sensor ''s1'' motion (0, 100) (9/10)) =
     sensor_type (sample_sensor ''s2'' motion (0, 500) (1/2))"
    by (simp add: sample_sensor_def)
  have v: "reading_value (sample_reading ''d1'' motion 90) =
     reading_value (sample_reading ''d2'' camera 90)"
    by (simp add: sample_reading_def)
  have "checkThresholds (sample_sensor ''s1'' motion (0, 100) (9/10)) (sample_reading ''d1'' motion 90) =
     Some \<lparr>thr_min = 0, thr_max = 80, thr_severity = high\<rparr>"
    by (simp add: checkThresholds_def sample_sensor_def sample_reading_def)
  with checkThresholds_deterministic[OF t v] t v show ?thesis by simp
qed

text \<open>
  \<^bold>\<open>C10\<close>. The threshold table has no entry exactly for the types pressure, proximity, gps,
  accelerometer and camera. For a sensor of a type without entry the threshold check
  returns no violation whatever the reading is, and processing the reading raises no
  threshold alert.
\<close>

theorem no_threshold_without_entry:
  "(thresholds ty = None) = (ty \<in> {pressure, proximity, gps, accelerometer, camera}) \<and>
   (thresholds (sensor_type sensor) = None \<longrightarrow>
      checkThresholds sensor reading = None \<and>
      list_all (\<lambda>a. alert_type a \<noteq> ''threshold'')
        (fst (processReading env hm store device sensor reading)))"
proof (intro conjI impI)
  show "(thresholds ty = None) = (ty \<in> {pressure, proximity, gps, accelerometer, camera})"
    by (cases ty) simp_all
next
  assume "thresholds (sensor_type sensor) = None"
  then show "checkThresholds sensor reading = None"
    by (simp add: checkThresholds_def)
  then show "list_all (\<lambda>a. alert_type a \<noteq> ''threshold'')
        (fst (processReading env hm store device sensor reading))"
    by (simp add: processReading_alerts)
qed

theorem no_threshold_without_entry_witness:
  "thresholds (sensor_type (sample_sensor ''s'' pressure (900, 1100) 1)) = None \<and>
   checkThresholds (sample_sensor ''s'' pressure (900, 1100) 1)
     (sample_reading ''d'' pressure 1000000) = None \<and>
   fst (processReading (sample_env (1/2)) [] [] (sample_device ''d'' ''online'' (sample_location 0 0) [])
          (sample_sensor ''s'' pressure (900, 1100) 1) (sample_reading ''d'' pressure 1000000)) = [] \<and>
   checkThresholds (sample_sensor ''s'' temperature (900, 1100) 1)
     (sample_reading ''d'' temperature 1000000) = Some \<lparr>thr_min = -10, thr_max = 40, thr_severity = medium\<rparr>"
proof -
  have h: "thresholds (sensor_type (sample_sensor ''s'' pressure (900, 1100) 1)) = None"
    by (simp add: sample_sensor_def)
  from no_threshold_without_entry[of pressure "sample_sensor ''s'' pressure (900, 1100) 1"
      "sample_reading ''d'' pressure 1000000"] h
  have "checkThresholds (sample_sensor ''s'' pressure (900, 1100) 1)
     (sample_reading ''d'' pressure 1000000) = None"
    by blast
  moreover have "fst (processReading (sample_env (1/2)) [] []
          (sample_device ''d'' ''online'' (sample_location 0 0) [])
          (sample_sensor ''s'' pressure (900, 1100) 1) (sample_reading ''d'' pressure 1000000)) = []"
    by (simp add: processReading_alerts detectAnomaly_def readingsOf_def slice_last_def
          checkThresholds_def sample_sensor_def)
  moreover have "checkThresholds (sample_sensor ''s'' temperature (900, 1100) 1)
     (sample_reading ''d'' temperature 1000000) = Some \<lparr>thr_min = -10, thr_max = 40, thr_severity = medium\<rparr>"
    by (simp add: checkThresholds_def sample_sensor_def sample_reading_def)
  ultimately show ?thesis using h by simp
qed

subsection \<open>Quality labels\<close>



subsection \<open>Rounding to double\<close>

lemma round_half_even_near:
  assumes "\<bar>y - real_of_int m\<bar> < 1 / 2"
  shows "round_half_even y = m"
proof (cases "real_of_int m \<le> y")
  case True
  with assms have "\<lfloor>y\<rfloor> = m" by (intro floor_unique) linarith+
  with assms True show ?thesis by (simp add: round_half_even_def Let_def)
next
  case False
  from assms False have "real_of_int m - 1 \<le> y" "y < real_of_int m" by linarith+
  then have f: "\<lfloor>y\<rfloor> = m - 1" by (intro floor_unique) simp_all
  from False assms have "1 / 2 < y - real_of_int (m - 1)" by simp
  with f show ?thesis by (simp add: round_half_even_def Let_def)
qed

lemma round_half_even_tie:
  assumes "\<bar>y - real_of_int m\<bar> = 1 / 2" and "even m"
  shows "round_half_even y = m"
proof (cases "real_of_int m \<le> y")
  case True
  with assms have y: "y = real_of_int m + 1 / 2" by linarith
  then have "\<lfloor>y\<rfloor> = m" by (intro floor_unique) simp_all
  with y assms show ?thesis by (simp add: round_half_even_def Let_def)
next
  case False
  with assms have y: "y = real_of_int m - 1 / 2" by linarith
  then have f: "\<lfloor>y\<rfloor> = m - 1" by (intro floor_unique) simp_all
  from y have "y - real_of_int (m - 1) = 1 / 2" by simp
  with f assms show ?thesis by (simp add: round_half_even_def Let_def)
qed

text \<open>
  A real in the binade of exponent \<open>e + 52\<close> whose quotient by \<open>2\<^sup>e\<close> rounds to the integer \<open>m\<close>
  rounds to the double \<open>m * 2\<^sup>e\<close>.
\<close>

lemma round_by_significand:
  assumes y: "y = real_of_int m * 2 powi e"
    and lo: "2 powi (e + 52) \<le> \<bar>x\<bar>" and hi: "\<bar>x\<bar> < 2 powi (e + 53)"
    and e: "- 1074 \<le> e" "e \<le> 970"
    and r: "round_half_even (x / 2 powi e) = m"
    and near: "\<bar>x - y\<bar> \<le> 2 powi e / 2"
  shows "roundTiesToEven x = Num y"
proof -
  have pos: "(0::real) < 2 powi k" for k by simp
  have "0 < \<bar>x\<bar>" by (rule less_le_trans[OF pos lo])
  then have x0: "x \<noteq> 0" "0 < \<bar>x\<bar>" by simp_all
  have p: "2 powr real_of_int k = (2::real) powi k" for k
    by (simp add: powr_real_of_int')
  have "\<lfloor>log 2 \<bar>x\<bar>\<rfloor> = e + 52"
    using lo hi x0 p[of "e + 52"] p[of "e + 53"]
    by (subst floor_log_eq_powr_iff) (simp_all add: add.assoc)
  then have ex: "max \<lfloor>log 2 \<bar>x\<bar>\<rfloor> (- 1022) - 52 = e" using e by simp
  have "\<bar>y\<bar> \<le> \<bar>x\<bar> + \<bar>x - y\<bar>" by linarith
  also have "\<dots> < 2 powi (e + 53) + 2 powi e" using hi near pos[of e] by linarith
  also have "\<dots> \<le> 2 powi (e + 53) + 2 powi (e + 53)"
  proof -
    have "(2::real) powi e \<le> 2 powi (e + 53)" by (intro power_int_increasing) simp_all
    then show ?thesis by linarith
  qed
  also have "\<dots> = 2 powi (e + 54)" by (simp add: power_int_add)
  also have "\<dots> \<le> 2 powi 1024" using e by (intro power_int_increasing) simp_all
  finally have "\<not> 2 powi 1024 \<le> \<bar>y\<bar>" by simp
  with x0 ex r y show ?thesis by (simp add: roundTiesToEven_def Let_def del: power_int_numeral)
qed

lemma significand_distance:
  assumes y: "y = real_of_int m * 2 powi e"
  shows "\<bar>x / 2 powi e - real_of_int m\<bar> = \<bar>x - y\<bar> / 2 powi e"
proof -
  have pos: "(0::real) < 2 powi e" by simp
  show ?thesis
    unfolding y using pos by (simp add: field_simps abs_mult flip: abs_mult)
qed

text \<open>The real is closer than half a unit in the last place to the double.\<close>

lemma round_cert:
  assumes y: "y = real_of_int m * 2 powi e"
    and lo: "2 powi (e + 52) \<le> \<bar>x\<bar>" and hi: "\<bar>x\<bar> < 2 powi (e + 53)"
    and e: "- 1074 \<le> e" "e \<le> 970"
    and near: "\<bar>x - y\<bar> < 2 powi e / 2"
  shows "roundTiesToEven x = Num y"
proof (rule round_by_significand[OF y lo hi e])
  have pos: "(0::real) < 2 powi e" by simp
  have "\<bar>x / 2 powi e - real_of_int m\<bar> = \<bar>x - y\<bar> / 2 powi e"
    by (rule significand_distance[OF y])
  also have "\<dots> < 1 / 2" using near pos by (simp add: field_simps)
  finally show "round_half_even (x / 2 powi e) = m" by (rule round_half_even_near)
  show "\<bar>x - y\<bar> \<le> 2 powi e / 2" using near by simp
qed

text \<open>The real is half way between two doubles, and the double is the even one.\<close>

lemma round_tie_cert:
  assumes y: "y = real_of_int m * 2 powi e"
    and lo: "2 powi (e + 52) \<le> \<bar>x\<bar>" and hi: "\<bar>x\<bar> < 2 powi (e + 53)"
    and e: "- 1074 \<le> e" "e \<le> 970"
    and tie: "\<bar>x - y\<bar> = 2 powi e / 2" and even: "even m"
  shows "roundTiesToEven x = Num y"
proof (rule round_by_significand[OF y lo hi e])
  have pos: "(0::real) < 2 powi e" by simp
  have "\<bar>x / 2 powi e - real_of_int m\<bar> = \<bar>x - y\<bar> / 2 powi e"
    by (rule significand_distance[OF y])
  also have "\<dots> = 1 / 2" using tie pos by (simp add: field_simps)
  finally show "round_half_even (x / 2 powi e) = m" using even by (rule round_half_even_tie)
  show "\<bar>x - y\<bar> \<le> 2 powi e / 2" using tie by simp
qed

lemma round_sqrt_cert:
  assumes y: "y = real_of_int m * 2 powi e"
    and lo: "(2 powi (e + 52))\<^sup>2 \<le> q" and hi: "q < (2 powi (e + 53))\<^sup>2"
    and e: "- 1074 \<le> e" "e \<le> 970"
    and h: "2 powi e / 2 \<le> y"
    and below: "(y - 2 powi e / 2)\<^sup>2 < q" and above: "q < (y + 2 powi e / 2)\<^sup>2"
  shows "roundTiesToEven (sqrt q) = Num y"
proof (rule round_cert[OF y _ _ e])
  have pos: "(0::real) < 2 powi k" for k by simp
  have "(0::real) \<le> (2 powi (e + 52))\<^sup>2" by simp
  with lo have q0: "0 \<le> q" by linarith
  then have s0: "0 \<le> sqrt q" by simp
  have "2 powi (e + 52) \<le> sqrt q" using lo by (rule real_le_rsqrt)
  with s0 show "2 powi (e + 52) \<le> \<bar>sqrt q\<bar>" by simp
  have "sqrt q < 2 powi (e + 53)" using hi pos[of "e + 53"] by (intro real_less_lsqrt) simp_all
  with s0 show "\<bar>sqrt q\<bar> < 2 powi (e + 53)" by simp
  have "y - 2 powi e / 2 < sqrt q" using below by (rule real_less_rsqrt)
  moreover have "sqrt q < y + 2 powi e / 2"
  proof (rule real_less_lsqrt)
    show "0 \<le> y + 2 powi e / 2" using h pos[of e] by linarith
    show "q < (y + 2 powi e / 2)\<^sup>2" by (rule above)
  qed
  ultimately show "\<bar>sqrt q - y\<bar> < 2 powi e / 2" by linarith
qed

lemma js_div_Num: "b \<noteq> 0 \<Longrightarrow> js_div (Num a) (Num b) = roundTiesToEven (a / b)"
  by simp

lemma Math_sqrt_Num: "0 \<le> a \<Longrightarrow> Math_sqrt (Num a) = roundTiesToEven (sqrt a)"
  by simp

subsection \<open>Double arithmetic on sample windows\<close>

text \<open>
  The steps of the anomaly check in double arithmetic on four windows of values: the sums,
  the quotients, the differences from the mean, their squares and the square root. Each
  result is written \<open>m * 2\<^sup>e\<close> with its significand and exponent, and is certified by the
  two lemmas above.
\<close>

lemma double_step_1:
  "js_add (Num 0) (Num 1013) = Num (1013)"
  by (simp only: js_add.simps)
    (rule round_cert[where m = "8910442231496704" and e = "-43"], simp_all add: dbl_def)

lemma double_step_2:
  "js_add (Num 1013) (Num 1013) = Num (2026)"
  by (simp only: js_add.simps)
    (rule round_cert[where m = "8910442231496704" and e = "-42"], simp_all add: dbl_def)

lemma double_step_3:
  "js_add (Num 2026) (Num 1013) = Num (3039)"
  by (simp only: js_add.simps)
    (rule round_cert[where m = "6682831673622528" and e = "-41"], simp_all add: dbl_def)

lemma double_step_4:
  "js_add (Num 3039) (Num 1013) = Num (4052)"
  by (simp only: js_add.simps)
    (rule round_cert[where m = "8910442231496704" and e = "-41"], simp_all add: dbl_def)

lemma double_step_5:
  "js_add (Num 4052) (Num 1020) = Num (5072)"
  by (simp only: js_add.simps)
    (rule round_cert[where m = "5576722976079872" and e = "-40"], simp_all add: dbl_def)

lemma double_step_6:
  "js_div (Num 5072) (Num 5) = Num (dbl (8922756761727795) (-43))"
  by (subst js_div_Num, simp, rule round_cert[where m = "8922756761727795" and e = "-43"],
      simp_all add: dbl_def)

lemma double_step_7:
  "js_sub (Num 1013) (Num (dbl (8922756761727795) (-43))) = Num (dbl (-6305039478318592) (-52))"
  by (simp only: js_sub_def js_neg.simps js_add.simps)
    (rule round_cert[where m = "-6305039478318592" and e = "-52"], simp_all add: dbl_def)

lemma double_step_8:
  "Math_pow2 (Num (dbl (-6305039478318592) (-52))) = Num (dbl (8827055269645885) (-52))"
  by (simp only: Math_pow2.simps)
    (rule round_cert[where m = "8827055269645885" and e = "-52"], simp_all add: dbl_def)

lemma double_step_9:
  "js_add (Num 0) (Num (dbl (8827055269645885) (-52))) = Num (dbl (8827055269645885) (-52))"
  by (simp only: js_add.simps)
    (rule round_cert[where m = "8827055269645885" and e = "-52"], simp_all add: dbl_def)

lemma double_step_10:
  "js_add (Num (dbl (8827055269645885) (-52))) (Num (dbl (8827055269645885) (-52))) = Num (dbl (8827055269645885) (-51))"
  by (simp only: js_add.simps)
    (rule round_cert[where m = "8827055269645885" and e = "-51"], simp_all add: dbl_def)

lemma double_step_11:
  "js_add (Num (dbl (8827055269645885) (-51))) (Num (dbl (8827055269645885) (-52))) = Num (dbl (6620291452234414) (-50))"
  by (simp only: js_add.simps)
    (rule round_cert[where m = "6620291452234414" and e = "-50"], simp_all add: dbl_def)

lemma double_step_12:
  "js_add (Num (dbl (6620291452234414) (-50))) (Num (dbl (8827055269645885) (-52))) = Num (dbl (8827055269645885) (-50))"
  by (simp only: js_add.simps)
    (rule round_cert[where m = "8827055269645885" and e = "-50"], simp_all add: dbl_def)

lemma double_step_13:
  "js_sub (Num 1020) (Num (dbl (8922756761727795) (-43))) = Num (dbl (6305039478318720) (-50))"
  by (simp only: js_sub_def js_neg.simps js_add.simps)
    (rule round_cert[where m = "6305039478318720" and e = "-50"], simp_all add: dbl_def)

lemma double_step_14:
  "Math_pow2 (Num (dbl (6305039478318720) (-50))) = Num (dbl (8827055269646244) (-48))"
  by (simp only: Math_pow2.simps)
    (rule round_cert[where m = "8827055269646244" and e = "-48"], simp_all add: dbl_def)

lemma double_step_15:
  "js_add (Num (dbl (8827055269645885) (-50))) (Num (dbl (8827055269646244) (-48))) = Num (dbl (5516909543528858) (-47))"
  by (simp only: js_add.simps)
    (rule round_cert[where m = "5516909543528858" and e = "-47"], simp_all add: dbl_def)

lemma double_step_16:
  "js_div (Num (dbl (5516909543528858) (-47))) (Num 5) = Num (dbl (8827055269646173) (-50))"
  by (subst js_div_Num, simp, rule round_cert[where m = "8827055269646173" and e = "-50"],
      simp_all add: dbl_def)

lemma double_step_17:
  "Math_sqrt (Num (dbl (8827055269646173) (-50))) = Num (dbl (6305039478318695) (-51))"
  by (subst Math_sqrt_Num, simp add: dbl_def,
      rule round_sqrt_cert[where m = "6305039478318695" and e = "-51"],
      simp_all add: dbl_def power2_eq_square)

lemma double_step_18:
  "js_mul (Num 2) (Num (dbl (6305039478318695) (-51))) = Num (dbl (6305039478318695) (-50))"
  by (simp only: js_mul.simps)
    (rule round_cert[where m = "6305039478318695" and e = "-50"], simp_all add: dbl_def)

lemma double_step_19:
  "js_add (Num 0) (Num 30) = Num (30)"
  by (simp only: js_add.simps)
    (rule round_cert[where m = "8444249301319680" and e = "-48"], simp_all add: dbl_def)

lemma double_step_20:
  "js_add (Num 30) (Num 1013) = Num (1043)"
  by (simp only: js_add.simps)
    (rule round_cert[where m = "4587162511081472" and e = "-42"], simp_all add: dbl_def)

lemma double_step_21:
  "js_add (Num 1043) (Num 30) = Num (1073)"
  by (simp only: js_add.simps)
    (rule round_cert[where m = "4719103906414592" and e = "-42"], simp_all add: dbl_def)

lemma double_step_22:
  "js_add (Num 1073) (Num 1013) = Num (2086)"
  by (simp only: js_add.simps)
    (rule round_cert[where m = "4587162511081472" and e = "-41"], simp_all add: dbl_def)

lemma double_step_23:
  "js_add (Num 2086) (Num 30) = Num (2116)"
  by (simp only: js_add.simps)
    (rule round_cert[where m = "4653133208748032" and e = "-41"], simp_all add: dbl_def)

lemma double_step_24:
  "js_add (Num 2116) (Num 1013) = Num (3129)"
  by (simp only: js_add.simps)
    (rule round_cert[where m = "6880743766622208" and e = "-41"], simp_all add: dbl_def)

lemma double_step_25:
  "js_add (Num 3129) (Num 30) = Num (3159)"
  by (simp only: js_add.simps)
    (rule round_cert[where m = "6946714464288768" and e = "-41"], simp_all add: dbl_def)

lemma double_step_26:
  "js_add (Num 3159) (Num 1013) = Num (4172)"
  by (simp only: js_add.simps)
    (rule round_cert[where m = "4587162511081472" and e = "-40"], simp_all add: dbl_def)

lemma double_step_27:
  "js_add (Num 4172) (Num 30) = Num (4202)"
  by (simp only: js_add.simps)
    (rule round_cert[where m = "4620147859914752" and e = "-40"], simp_all add: dbl_def)

lemma double_step_28:
  "js_add (Num 4202) (Num 1020) = Num (5222)"
  by (simp only: js_add.simps)
    (rule round_cert[where m = "5741649720246272" and e = "-40"], simp_all add: dbl_def)

lemma double_step_29:
  "js_div (Num 5222) (Num 10) = Num (dbl (4593319776197018) (-43))"
  by (subst js_div_Num, simp, rule round_cert[where m = "4593319776197018" and e = "-43"],
      simp_all add: dbl_def)

lemma double_step_30:
  "js_sub (Num 30) (Num (dbl (4593319776197018) (-43))) = Num (dbl (-8658873971061556) (-44))"
  by (simp only: js_sub_def js_neg.simps js_add.simps)
    (rule round_cert[where m = "-8658873971061556" and e = "-44"], simp_all add: dbl_def)

lemma double_step_31:
  "Math_pow2 (Num (dbl (-8658873971061556) (-44))) = Num (dbl (8324019079211911) (-35))"
  by (simp only: Math_pow2.simps)
    (rule round_cert[where m = "8324019079211911" and e = "-35"], simp_all add: dbl_def)

lemma double_step_32:
  "js_add (Num 0) (Num (dbl (8324019079211911) (-35))) = Num (dbl (8324019079211911) (-35))"
  by (simp only: js_add.simps)
    (rule round_cert[where m = "8324019079211911" and e = "-35"], simp_all add: dbl_def)

lemma double_step_33:
  "js_sub (Num 1013) (Num (dbl (4593319776197018) (-43))) = Num (dbl (8634244910599372) (-44))"
  by (simp only: js_sub_def js_neg.simps js_add.simps)
    (rule round_cert[where m = "8634244910599372" and e = "-44"], simp_all add: dbl_def)

lemma double_step_34:
  "Math_pow2 (Num (dbl (8634244910599372) (-44))) = Num (dbl (8276733207269866) (-35))"
  by (simp only: Math_pow2.simps)
    (rule round_cert[where m = "8276733207269866" and e = "-35"], simp_all add: dbl_def)

lemma double_step_35:
  "js_add (Num (dbl (8324019079211911) (-35))) (Num (dbl (8276733207269866) (-35))) = Num (dbl (8300376143240888) (-34))"
  by (simp only: js_add.simps)
    (rule round_tie_cert[where m = "8300376143240888" and e = "-34"], simp_all add: dbl_def)

lemma double_step_36:
  "js_add (Num (dbl (8300376143240888) (-34))) (Num (dbl (8324019079211911) (-35))) = Num (dbl (6231192841423422) (-33))"
  by (simp only: js_add.simps)
    (rule round_cert[where m = "6231192841423422" and e = "-33"], simp_all add: dbl_def)

lemma double_step_37:
  "js_add (Num (dbl (6231192841423422) (-33))) (Num (dbl (8276733207269866) (-35))) = Num (dbl (8300376143240888) (-33))"
  by (simp only: js_add.simps)
    (rule round_tie_cert[where m = "8300376143240888" and e = "-33"], simp_all add: dbl_def)

lemma double_step_38:
  "js_add (Num (dbl (8300376143240888) (-33))) (Num (dbl (8324019079211911) (-35))) = Num (dbl (5190690456521933) (-32))"
  by (simp only: js_add.simps)
    (rule round_cert[where m = "5190690456521933" and e = "-32"], simp_all add: dbl_def)

lemma double_step_39:
  "js_add (Num (dbl (5190690456521933) (-32))) (Num (dbl (8276733207269866) (-35))) = Num (dbl (6225282107430666) (-32))"
  by (simp only: js_add.simps)
    (rule round_cert[where m = "6225282107430666" and e = "-32"], simp_all add: dbl_def)

lemma double_step_40:
  "js_add (Num (dbl (6225282107430666) (-32))) (Num (dbl (8324019079211911) (-35))) = Num (dbl (7265784492332155) (-32))"
  by (simp only: js_add.simps)
    (rule round_cert[where m = "7265784492332155" and e = "-32"], simp_all add: dbl_def)

lemma double_step_41:
  "js_add (Num (dbl (7265784492332155) (-32))) (Num (dbl (8276733207269866) (-35))) = Num (dbl (8300376143240888) (-32))"
  by (simp only: js_add.simps)
    (rule round_cert[where m = "8300376143240888" and e = "-32"], simp_all add: dbl_def)

lemma double_step_42:
  "js_add (Num (dbl (8300376143240888) (-32))) (Num (dbl (8324019079211911) (-35))) = Num (dbl (4670439264071188) (-31))"
  by (simp only: js_add.simps)
    (rule round_cert[where m = "4670439264071188" and e = "-31"], simp_all add: dbl_def)

lemma double_step_43:
  "js_sub (Num 1020) (Num (dbl (4593319776197018) (-43))) = Num (dbl (8757390212910284) (-44))"
  by (simp only: js_sub_def js_neg.simps js_add.simps)
    (rule round_cert[where m = "8757390212910284" and e = "-44"], simp_all add: dbl_def)

lemma double_step_44:
  "Math_pow2 (Num (dbl (8757390212910284) (-44))) = Num (dbl (8514509468724100) (-35))"
  by (simp only: Math_pow2.simps)
    (rule round_cert[where m = "8514509468724100" and e = "-35"], simp_all add: dbl_def)

lemma double_step_45:
  "js_add (Num (dbl (4670439264071188) (-31))) (Num (dbl (8514509468724100) (-35))) = Num (dbl (5202596105866444) (-31))"
  by (simp only: js_add.simps)
    (rule round_cert[where m = "5202596105866444" and e = "-31"], simp_all add: dbl_def)

lemma double_step_46:
  "js_div (Num (dbl (5202596105866444) (-31))) (Num 10) = Num (dbl (8324153769386310) (-35))"
  by (subst js_div_Num, simp, rule round_cert[where m = "8324153769386310" and e = "-35"],
      simp_all add: dbl_def)

lemma double_step_47:
  "Math_sqrt (Num (dbl (8324153769386310) (-35))) = Num (dbl (8658944024993220) (-44))"
  by (subst Math_sqrt_Num, simp add: dbl_def,
      rule round_sqrt_cert[where m = "8658944024993220" and e = "-44"],
      simp_all add: dbl_def power2_eq_square)

lemma double_step_48:
  "js_mul (Num 2) (Num (dbl (8658944024993220) (-44))) = Num (dbl (8658944024993220) (-43))"
  by (simp only: js_mul.simps)
    (rule round_cert[where m = "8658944024993220" and e = "-43"], simp_all add: dbl_def)

lemma double_step_49:
  "js_add (Num 4052) (Num 1013) = Num (5065)"
  by (simp only: js_add.simps)
    (rule round_cert[where m = "5569026394685440" and e = "-40"], simp_all add: dbl_def)

lemma double_step_50:
  "js_add (Num 5065) (Num 1013) = Num (6078)"
  by (simp only: js_add.simps)
    (rule round_cert[where m = "6682831673622528" and e = "-40"], simp_all add: dbl_def)

lemma double_step_51:
  "js_add (Num 6078) (Num 1020) = Num (7098)"
  by (simp only: js_add.simps)
    (rule round_cert[where m = "7804333533954048" and e = "-40"], simp_all add: dbl_def)

lemma double_step_52:
  "js_div (Num 7098) (Num 7) = Num (1014)"
  by (subst js_div_Num, simp, rule round_cert[where m = "8919238324518912" and e = "-43"],
      simp_all add: dbl_def)

lemma double_step_53:
  "js_sub (Num 1013) (Num 1014) = Num (dbl (-4503599627370496) (-52))"
  by (simp only: js_sub_def js_neg.simps js_add.simps)
    (rule round_cert[where m = "-4503599627370496" and e = "-52"], simp_all add: dbl_def)

lemma double_step_54:
  "Math_pow2 (Num (dbl (-4503599627370496) (-52))) = Num (1)"
  by (simp only: Math_pow2.simps)
    (rule round_cert[where m = "4503599627370496" and e = "-52"], simp_all add: dbl_def)

lemma double_step_55:
  "js_add (Num 0) (Num 1) = Num (1)"
  by (simp only: js_add.simps)
    (rule round_cert[where m = "4503599627370496" and e = "-52"], simp_all add: dbl_def)

lemma double_step_56:
  "js_add (Num 1) (Num 1) = Num (2)"
  by (simp only: js_add.simps)
    (rule round_cert[where m = "4503599627370496" and e = "-51"], simp_all add: dbl_def)

lemma double_step_57:
  "js_add (Num 2) (Num 1) = Num (3)"
  by (simp only: js_add.simps)
    (rule round_cert[where m = "6755399441055744" and e = "-51"], simp_all add: dbl_def)

lemma double_step_58:
  "js_add (Num 3) (Num 1) = Num (4)"
  by (simp only: js_add.simps)
    (rule round_cert[where m = "4503599627370496" and e = "-50"], simp_all add: dbl_def)

lemma double_step_59:
  "js_add (Num 4) (Num 1) = Num (5)"
  by (simp only: js_add.simps)
    (rule round_cert[where m = "5629499534213120" and e = "-50"], simp_all add: dbl_def)

lemma double_step_60:
  "js_add (Num 5) (Num 1) = Num (6)"
  by (simp only: js_add.simps)
    (rule round_cert[where m = "6755399441055744" and e = "-50"], simp_all add: dbl_def)

lemma double_step_61:
  "js_sub (Num 1020) (Num 1014) = Num (6)"
  by (simp only: js_sub_def js_neg.simps js_add.simps)
    (rule round_cert[where m = "6755399441055744" and e = "-50"], simp_all add: dbl_def)

lemma double_step_62:
  "Math_pow2 (Num 6) = Num (36)"
  by (simp only: Math_pow2.simps)
    (rule round_cert[where m = "5066549580791808" and e = "-47"], simp_all add: dbl_def)

lemma double_step_63:
  "js_add (Num 6) (Num 36) = Num (42)"
  by (simp only: js_add.simps)
    (rule round_cert[where m = "5910974510923776" and e = "-47"], simp_all add: dbl_def)

lemma double_step_64:
  "js_div (Num 42) (Num 7) = Num (6)"
  by (subst js_div_Num, simp, rule round_cert[where m = "6755399441055744" and e = "-50"],
      simp_all add: dbl_def)

lemma double_step_65:
  "Math_sqrt (Num 6) = Num (dbl (5515760546423086) (-51))"
  by (subst Math_sqrt_Num, simp add: dbl_def,
      rule round_sqrt_cert[where m = "5515760546423086" and e = "-51"],
      simp_all add: dbl_def power2_eq_square)

lemma double_step_66:
  "js_mul (Num 2) (Num (dbl (5515760546423086) (-51))) = Num (dbl (5515760546423086) (-50))"
  by (simp only: js_mul.simps)
    (rule round_cert[where m = "5515760546423086" and e = "-50"], simp_all add: dbl_def)

lemma double_step_67:
  "js_div (Num 6078) (Num 6) = Num (1013)"
  by (subst js_div_Num, simp, rule round_cert[where m = "8910442231496704" and e = "-43"],
      simp_all add: dbl_def)

lemma double_step_68:
  "js_sub (Num 1013) (Num 1013) = Num (0)"
  by (simp add: js_sub_def roundTiesToEven_def)

lemma double_step_69:
  "Math_pow2 (Num 0) = Num (0)"
  by (simp add: js_sub_def roundTiesToEven_def)

lemma double_step_70:
  "js_add (Num 0) (Num 0) = Num (0)"
  by (simp add: js_sub_def roundTiesToEven_def)

lemma double_step_71:
  "js_div (Num 0) (Num 6) = Num (0)"
  by (simp add: js_sub_def roundTiesToEven_def)

lemma double_step_72:
  "Math_sqrt (Num 0) = Num (0)"
  by (simp add: js_sub_def roundTiesToEven_def)

lemma double_step_73:
  "js_mul (Num 2) (Num 0) = Num (0)"
  by (simp add: js_sub_def roundTiesToEven_def)

lemma double_step_74:
  "js_sub (Num 1020) (Num 1013) = Num (7)"
  by (simp only: js_sub_def js_neg.simps js_add.simps)
    (rule round_cert[where m = "7881299347898368" and e = "-50"], simp_all add: dbl_def)

lemmas double_steps = double_step_1 double_step_2 double_step_3 double_step_4 double_step_5
  double_step_6 double_step_7 double_step_8 double_step_9 double_step_10 double_step_11
  double_step_12 double_step_13 double_step_14 double_step_15 double_step_16 double_step_17
  double_step_18 double_step_19 double_step_20 double_step_21 double_step_22 double_step_23
  double_step_24 double_step_25 double_step_26 double_step_27 double_step_28 double_step_29
  double_step_30 double_step_31 double_step_32 double_step_33 double_step_34 double_step_35
  double_step_36 double_step_37 double_step_38 double_step_39 double_step_40 double_step_41
  double_step_42 double_step_43 double_step_44 double_step_45 double_step_46 double_step_47
  double_step_48 double_step_49 double_step_50 double_step_51 double_step_52 double_step_53
  double_step_54 double_step_55 double_step_56 double_step_57 double_step_58 double_step_59
  double_step_60 double_step_61 double_step_62 double_step_63 double_step_64 double_step_65
  double_step_66 double_step_67 double_step_68 double_step_69 double_step_70 double_step_71
  double_step_72 double_step_73 double_step_74

lemma four_then_high_mean: "double_mean [1013, 1013, 1013, 1013, 1020] = Num (dbl (8922756761727795) (-43))"
  by (simp add: double_mean_def double_sum_def double_steps del: js_add.simps(1) js_div.simps(1))

lemma four_then_high_std_dev: "double_std_dev [1013, 1013, 1013, 1013, 1020] = Num (dbl (6305039478318695) (-51))"
  by (simp add: double_std_dev_def double_sum_def four_then_high_mean double_steps
        del: js_add.simps(1) js_div.simps(1) Math_pow2.simps(1) Math_sqrt.simps(1))

lemma four_then_high_test:
  "js_gt (Math_abs (js_sub (Num 1020) (double_mean [1013, 1013, 1013, 1013, 1020])))
         (js_mul (Num 2) (double_std_dev [1013, 1013, 1013, 1013, 1020]))"
  unfolding four_then_high_mean four_then_high_std_dev double_steps by (simp add: dbl_def)

lemma device_window_mean: "double_mean [30, 1013, 30, 1013, 30, 1013, 30, 1013, 30, 1020] = Num (dbl (4593319776197018) (-43))"
  by (simp add: double_mean_def double_sum_def double_steps del: js_add.simps(1) js_div.simps(1))

lemma device_window_std_dev: "double_std_dev [30, 1013, 30, 1013, 30, 1013, 30, 1013, 30, 1020] = Num (dbl (8658944024993220) (-44))"
  by (simp add: double_std_dev_def double_sum_def device_window_mean double_steps
        del: js_add.simps(1) js_div.simps(1) Math_pow2.simps(1) Math_sqrt.simps(1))

lemma device_window_test:
  "\<not> js_gt (Math_abs (js_sub (Num 1020) (double_mean [30, 1013, 30, 1013, 30, 1013, 30, 1013, 30, 1020])))
         (js_mul (Num 2) (double_std_dev [30, 1013, 30, 1013, 30, 1013, 30, 1013, 30, 1020]))"
  unfolding device_window_mean device_window_std_dev double_steps by (simp add: dbl_def)

lemma sensor_window_mean: "double_mean [1013, 1013, 1013, 1013, 1013, 1013, 1020] = Num (1014)"
  by (simp add: double_mean_def double_sum_def double_steps del: js_add.simps(1) js_div.simps(1))

lemma sensor_window_std_dev: "double_std_dev [1013, 1013, 1013, 1013, 1013, 1013, 1020] = Num (dbl (5515760546423086) (-51))"
  by (simp add: double_std_dev_def double_sum_def sensor_window_mean double_steps
        del: js_add.simps(1) js_div.simps(1) Math_pow2.simps(1) Math_sqrt.simps(1))

lemma sensor_window_test:
  "js_gt (Math_abs (js_sub (Num 1020) (double_mean [1013, 1013, 1013, 1013, 1013, 1013, 1020])))
         (js_mul (Num 2) (double_std_dev [1013, 1013, 1013, 1013, 1013, 1013, 1020]))"
  unfolding sensor_window_mean sensor_window_std_dev double_steps by (simp add: dbl_def)

lemma sensor_prior_mean: "double_mean [1013, 1013, 1013, 1013, 1013, 1013] = Num (1013)"
  by (simp add: double_mean_def double_sum_def double_steps del: js_add.simps(1) js_div.simps(1))

lemma sensor_prior_std_dev: "double_std_dev [1013, 1013, 1013, 1013, 1013, 1013] = Num (0)"
  by (simp add: double_std_dev_def double_sum_def sensor_prior_mean double_steps
        del: js_add.simps(1) js_div.simps(1) Math_pow2.simps(1) Math_sqrt.simps(1))

lemma sensor_prior_test:
  "js_gt (Math_abs (js_sub (Num 1020) (double_mean [1013, 1013, 1013, 1013, 1013, 1013])))
         (js_mul (Num 2) (double_std_dev [1013, 1013, 1013, 1013, 1013, 1013]))"
  unfolding sensor_prior_mean sensor_prior_std_dev double_steps by (simp add: dbl_def)

subsection \<open>The anomaly check\<close>

lemma length_slice_last: "length (slice_last n xs) = min n (length xs)"
  by (simp add: slice_last_def)

lemma slice_last_slice_last: "m \<le> n \<Longrightarrow> slice_last m (slice_last n xs) = slice_last m xs"
proof -
  assume "m \<le> n"
  then have "length xs - (length xs - n + m) + (length xs - n) = length xs - m"
    by arith
  then show ?thesis by (simp add: slice_last_def)
qed

text \<open>The two reductions of the code are the mean and the standard deviation of the values.\<close>

lemma average_of_double_mean: "average_of rs = double_mean (map reading_value rs)"
  by (simp add: average_of_def double_mean_def double_sum_def foldl_map)

lemma stdDev_of_double_std_dev: "stdDev_of rs = double_std_dev (map reading_value rs)"
  by (simp add: stdDev_of_def double_std_dev_def double_sum_def foldl_map average_of_double_mean)

lemma detectAnomaly_window:
  "5 \<le> length (readingsOf store deviceId) \<Longrightarrow>
   detectAnomaly store deviceId sensorId reading =
     js_gt (Math_abs (js_sub (Num (reading_value reading))
                       (double_mean (map reading_value (slice_last 10 (readingsOf store deviceId))))))
           (js_mul (Num 2)
              (double_std_dev (map reading_value (slice_last 10 (readingsOf store deviceId)))))"
  by (simp add: detectAnomaly_def Let_def average_of_double_mean stdDev_of_double_std_dev
        length_slice_last min_def)

lemma detectAnomaly_short:
  "length (readingsOf store deviceId) < 5 \<Longrightarrow> \<not> detectAnomaly store deviceId sensorId reading"
  by (simp add: detectAnomaly_def length_slice_last Let_def)

text \<open>
  \<^bold>\<open>C3\<close>, as the code has it. The anomaly check returns false, whatever the value of the new
  reading, when the history of the device holds fewer than five readings at the time of
  the check; processing the reading then raises no anomaly alert. In the poll cycle the
  new reading is appended before the check, so that the check is skipped when fewer than
  four readings precede the new one.
\<close>

theorem no_anomaly_below_five_stored:
  "(length (readingsOf store deviceId) < 5 \<longrightarrow>
      \<not> detectAnomaly store deviceId sensorId reading) \<and>
   (length (readingsOf store (device_id device)) < 5 \<longrightarrow>
      list_all (\<lambda>a. alert_type a \<noteq> ''anomaly'')
        (fst (processReading env hm store device sensor reading))) \<and>
   (length (readingsOf store deviceId) < 4 \<longrightarrow>
      \<not> detectAnomaly (storeReading store deviceId reading) deviceId sensorId reading)"
proof (intro conjI impI)
  assume "length (readingsOf store deviceId) < 5"
  then show "\<not> detectAnomaly store deviceId sensorId reading"
    by (rule detectAnomaly_short)
next
  assume "length (readingsOf store (device_id device)) < 5"
  then have "\<not> detectAnomaly store (device_id device) (sensor_id sensor) reading"
    by (rule detectAnomaly_short)
  then show "list_all (\<lambda>a. alert_type a \<noteq> ''anomaly'')
        (fst (processReading env hm store device sensor reading))"
    by (simp add: processReading_alerts split: option.splits)
next
  assume "length (readingsOf store deviceId) < 4"
  then have "length (readingsOf (storeReading store deviceId reading) deviceId) < 5"
    by (simp add: readingsOf_storeReading length_slice_last)
  then show "\<not> detectAnomaly (storeReading store deviceId reading) deviceId sensorId reading"
    by (rule detectAnomaly_short)
qed

theorem no_anomaly_below_five_stored_witness:
  "length (readingsOf [(''d'', replicate 3 (sample_reading ''d'' pressure 1013))] ''d'') < 4 \<and>
   \<not> detectAnomaly [(''d'', replicate 3 (sample_reading ''d'' pressure 1013))] ''d'' ''s''
       (sample_reading ''d'' pressure 1000000) \<and>
   list_all (\<lambda>a. alert_type a \<noteq> ''anomaly'')
     (fst (processReading (sample_env (1/2)) []
        [(''d'', replicate 3 (sample_reading ''d'' pressure 1013))]
        (sample_device ''d'' ''online'' (sample_location 0 0) [])
        (sample_sensor ''s'' pressure (900, 1100) 1) (sample_reading ''d'' pressure 1000000))) \<and>
   \<not> detectAnomaly
       (storeReading [(''d'', replicate 3 (sample_reading ''d'' pressure 1013))] ''d''
          (sample_reading ''d'' pressure 1000000))
       ''d'' ''s'' (sample_reading ''d'' pressure 1000000)"
proof -
  have h: "length (readingsOf [(''d'', replicate 3 (sample_reading ''d'' pressure 1013))] ''d'') < 4"
    by (simp add: readingsOf_def)
  then have h5: "length (readingsOf [(''d'', replicate 3 (sample_reading ''d'' pressure 1013))] ''d'') < 5"
    by simp
  have d: "device_id (sample_device ''d'' ''online'' (sample_location 0 0) []) = ''d''"
    by (simp add: sample_device_def)
  from h h5 no_anomaly_below_five_stored[
      where store = "[(''d'', replicate 3 (sample_reading ''d'' pressure 1013))]"
        and deviceId = "''d''" and sensorId = "''s''"
        and reading = "sample_reading ''d'' pressure 1000000"
        and device = "sample_device ''d'' ''online'' (sample_location 0 0) []"
        and env = "sample_env (1/2)" and hm = "[]"
        and sensor = "sample_sensor ''s'' pressure (900, 1100) 1"]
  show ?thesis unfolding d by blast
qed

text \<open>
  The claim \<^bold>\<open>C3\<close> as stated, with fewer than five readings before the new one, fails on the
  fifth reading of a device: after four readings of 1013 the reading 1020 is stored and
  then checked against a window of five, itself included. In exact arithmetic its distance
  5.6 from the mean 1014.4 equals twice the standard deviation 2.8; in double arithmetic
  the mean is rounded down, the distance comes out above twice the standard deviation, and
  the check returns true and the anomaly alert is raised.
\<close>

theorem anomaly_on_fifth_reading_counterexample:
  "length (readingsOf [(''d'', replicate 4 (sample_reading ''d'' pressure 1013))] ''d'') < 5 \<and>
   detectAnomaly
     (storeReading [(''d'', replicate 4 (sample_reading ''d'' pressure 1013))] ''d''
        (sample_reading ''d'' pressure 1020))
     ''d'' ''s'' (sample_reading ''d'' pressure 1020) \<and>
   map alert_type
     (fst (processReading (sample_env (1/2)) []
        (storeReading [(''d'', replicate 4 (sample_reading ''d'' pressure 1013))] ''d''
           (sample_reading ''d'' pressure 1020))
        (sample_device ''d'' ''online'' (sample_location 0 0) [])
        (sample_sensor ''s'' pressure (900, 1100) 1) (sample_reading ''d'' pressure 1020))) =
     [''anomaly'']"
proof -
  let ?store = "storeReading [(''d'', replicate 4 (sample_reading ''d'' pressure 1013))] ''d''
        (sample_reading ''d'' pressure 1020)"
  have four: "readingsOf [(''d'', replicate 4 (sample_reading ''d'' pressure 1013))] ''d'' =
      replicate 4 (sample_reading ''d'' pressure 1013)"
    by (simp add: readingsOf_def)
  have stored: "readingsOf ?store ''d'' =
      replicate 4 (sample_reading ''d'' pressure 1013) @ [sample_reading ''d'' pressure 1020]"
    by (simp add: readingsOf_storeReading four slice_last_id)
  have len: "length (readingsOf ?store ''d'') = 5"
    by (simp add: stored)
  have vals: "map reading_value (slice_last 10 (readingsOf ?store ''d'')) =
      [1013, 1013, 1013, 1013, 1020]"
    unfolding stored by (simp add: slice_last_id sample_reading_def eval_nat_numeral)
  have v: "reading_value (sample_reading ''d'' pressure 1020) = 1020"
    by (simp add: sample_reading_def)
  have fires: "detectAnomaly ?store ''d'' ''s'' (sample_reading ''d'' pressure 1020)"
    using four_then_high_test by (simp add: detectAnomaly_window len vals v del: js_mul.simps)
  then have "detectAnomaly ?store ''d'' sid (sample_reading ''d'' pressure 1020)" for sid
    by (simp add: detectAnomaly_def)
  then have "map alert_type
     (fst (processReading (sample_env (1/2)) [] ?store
        (sample_device ''d'' ''online'' (sample_location 0 0) [])
        (sample_sensor ''s'' pressure (900, 1100) 1) (sample_reading ''d'' pressure 1020))) =
     [''anomaly'']"
    by (simp add: processReading_alerts checkThresholds_def sample_device_def sample_sensor_def)
  with fires four show ?thesis by simp
qed

text \<open>
  \<^bold>\<open>C4\<close>, as the code has it. When the history of the device holds at least five readings,
  the reading is anomalous if and only if, in double arithmetic, the distance of its value
  from the mean of the last ten readings of the history of the device, the readings of all
  its sensors together, is greater than twice the standard deviation of these readings;
  every sum, quotient, difference, square and square root is rounded. In the poll cycle
  the history already ends with the new reading when the check runs. The sensor does not
  enter the check.
\<close>

theorem anomaly_test_device_window:
  "(5 \<le> length (readingsOf store deviceId) \<longrightarrow>
      detectAnomaly store deviceId sensorId reading =
        js_gt (Math_abs (js_sub (Num (reading_value reading))
                 (double_mean (map reading_value (slice_last 10 (readingsOf store deviceId))))))
              (js_mul (Num 2)
                 (double_std_dev (map reading_value (slice_last 10 (readingsOf store deviceId)))))) \<and>
   (4 \<le> length (readingsOf store deviceId) \<longrightarrow>
      detectAnomaly (storeReading store deviceId reading) deviceId sensorId reading =
        js_gt (Math_abs (js_sub (Num (reading_value reading))
                 (double_mean
                    (map reading_value (slice_last 10 (readingsOf store deviceId @ [reading]))))))
              (js_mul (Num 2)
                 (double_std_dev
                    (map reading_value (slice_last 10 (readingsOf store deviceId @ [reading])))))) \<and>
   detectAnomaly store deviceId sensorId reading = detectAnomaly store deviceId sensorId' reading"
proof (intro conjI impI)
  assume "5 \<le> length (readingsOf store deviceId)"
  then show "detectAnomaly store deviceId sensorId reading =
        js_gt (Math_abs (js_sub (Num (reading_value reading))
                 (double_mean (map reading_value (slice_last 10 (readingsOf store deviceId))))))
              (js_mul (Num 2)
                 (double_std_dev (map reading_value (slice_last 10 (readingsOf store deviceId)))))"
    by (rule detectAnomaly_window)
next
  assume "4 \<le> length (readingsOf store deviceId)"
  then have "5 \<le> length (readingsOf (storeReading store deviceId reading) deviceId)"
    by (simp add: readingsOf_storeReading length_slice_last)
  then have "detectAnomaly (storeReading store deviceId reading) deviceId sensorId reading =
        js_gt (Math_abs (js_sub (Num (reading_value reading))
                 (double_mean (map reading_value
                    (slice_last 10 (readingsOf (storeReading store deviceId reading) deviceId))))))
              (js_mul (Num 2)
                 (double_std_dev (map reading_value
                    (slice_last 10 (readingsOf (storeReading store deviceId reading) deviceId)))))"
    by (rule detectAnomaly_window)
  moreover have "slice_last 10 (readingsOf (storeReading store deviceId reading) deviceId) =
      slice_last 10 (readingsOf store deviceId @ [reading])"
    by (simp add: readingsOf_storeReading slice_last_slice_last)
  ultimately show "detectAnomaly (storeReading store deviceId reading) deviceId sensorId reading =
        js_gt (Math_abs (js_sub (Num (reading_value reading))
                 (double_mean
                    (map reading_value (slice_last 10 (readingsOf store deviceId @ [reading]))))))
              (js_mul (Num 2)
                 (double_std_dev
                    (map reading_value (slice_last 10 (readingsOf store deviceId @ [reading])))))"
    by (simp only:)
next
  show "detectAnomaly store deviceId sensorId reading = detectAnomaly store deviceId sensorId' reading"
    by (simp add: detectAnomaly_def)
qed

lemma mixed_history_values:
  "map reading_value (slice_last 10 (readingsOf [(''d'', mixed_history)] ''d'')) =
     [30, 1013, 30, 1013, 30, 1013, 30, 1013, 30, 1020]"
  "map reading_value (slice_last 10 (readingsOfSensor [(''d'', mixed_history)] ''d'' pressure)) =
     [1013, 1013, 1013, 1013, 1013, 1013, 1020]"
  "map reading_value
     (slice_last 10 (butlast (readingsOfSensor [(''d'', mixed_history)] ''d'' pressure))) =
     [1013, 1013, 1013, 1013, 1013, 1013]"
  "length (readingsOf [(''d'', mixed_history)] ''d'') = 14"
  "length (readingsOfSensor [(''d'', mixed_history)] ''d'' pressure) = 7"
  by (simp_all add: mixed_history_def readingsOfSensor_def readingsOf_def slice_last_def
        sample_reading_def eval_nat_numeral)

theorem anomaly_test_device_window_witness:
  "5 \<le> length (readingsOf [(''d'', mixed_history)] ''d'') \<and>
   detectAnomaly [(''d'', mixed_history)] ''d'' ''s2'' (sample_reading ''d'' pressure 1020) =
     js_gt (Math_abs (js_sub (Num 1020)
              (double_mean [30, 1013, 30, 1013, 30, 1013, 30, 1013, 30, 1020])))
           (js_mul (Num 2) (double_std_dev [30, 1013, 30, 1013, 30, 1013, 30, 1013, 30, 1020]))"
proof -
  have h: "5 \<le> length (readingsOf [(''d'', mixed_history)] ''d'')"
    by (simp add: mixed_history_values)
  have v: "reading_value (sample_reading ''d'' pressure 1020) = 1020"
    by (simp add: sample_reading_def)
  from h anomaly_test_device_window[of "[(''d'', mixed_history)]" "''d''" "''s2''"
      "sample_reading ''d'' pressure 1020"]
  have "detectAnomaly [(''d'', mixed_history)] ''d'' ''s2'' (sample_reading ''d'' pressure 1020) =
     js_gt (Math_abs (js_sub (Num (reading_value (sample_reading ''d'' pressure 1020)))
              (double_mean (map reading_value
                 (slice_last 10 (readingsOf [(''d'', mixed_history)] ''d''))))))
           (js_mul (Num 2) (double_std_dev (map reading_value
                 (slice_last 10 (readingsOf [(''d'', mixed_history)] ''d'')))))"
    by blast
  with h show ?thesis by (simp only: mixed_history_values v)
qed

text \<open>In exact arithmetic the pressure reading 1020 is an outlier among the pressure readings.\<close>

lemma mixed_history_sensor_window:
  "\<bar>1020 - mean [1013, 1013, 1013, 1013, 1013, 1013, 1020]\<bar>
       > 2 * std_dev [1013, 1013, 1013, 1013, 1013, 1013, 1020]"
proof -
  have m: "mean [1013, 1013, 1013, 1013, 1013, 1013, 1020] = 1014"
    by (simp add: mean_def)
  have s: "std_dev [1013, 1013, 1013, 1013, 1013, 1013, 1020] = sqrt 6"
    unfolding std_dev_def m by (simp add: power2_eq_square)
  have "sqrt 6 < (3 :: real)"
    by (rule real_less_lsqrt) simp_all
  then show ?thesis unfolding m s by simp
qed

lemma mixed_history_sensor_prior:
  "\<bar>1020 - mean [1013, 1013, 1013, 1013, 1013, 1013 :: real]\<bar>
       > 2 * std_dev [1013, 1013, 1013, 1013, 1013, 1013]"
  by (simp add: mean_def std_dev_def)

text \<open>
  The values of the mixed history are values that the synthesis step produces: 30 for a
  camera and 1013 for a pressure sensor when every random draw is one half, and 1020 for
  the pressure sensor when the draw for the pressure field is 0.85.
\<close>

lemma mixed_history_generated:
  "reading_value (fst (generateSensorReading (sample_env (1/2))
      (sample_sensor ''s1'' camera (0, 60) (95/100))
      (sample_device ''d'' ''online'' (sample_location 0 0) []))) = 30"
  "reading_value (fst (generateSensorReading (sample_env (1/2))
      (sample_sensor ''s2'' pressure (900, 1100) 1)
      (sample_device ''d'' ''online'' (sample_location 0 0) []))) = 1013"
  "reading_value (fst (generateSensorReading
      ((sample_env (1/2))\<lparr>random_stream := (\<lambda>n. if n = 1 then 17/20 else 1/2)\<rparr>)
      (sample_sensor ''s2'' pressure (900, 1100) 1)
      (sample_device ''d'' ''online'' (sample_location 0 0) []))) = 1020"
  by (simp_all add: generateSensorReading_value getBaseValueForSensor_def env_defs
        sample_sensor_def sample_device_def Let_def)

text \<open>
  The claim \<^bold>\<open>C4\<close> as stated, with the mean and the standard deviation of the last ten readings
  of the sensor itself, fails on a device with two sensors: the pressure reading 1020 is
  further than two standard deviations from the mean of the pressure readings, in exact
  and in double arithmetic, whether it is counted among them or not, and the code, which
  mixes them with the camera readings of the same device, does not flag it.
\<close>

theorem anomaly_per_sensor_counterexample:
  "5 \<le> length (butlast (readingsOfSensor [(''d'', mixed_history)] ''d'' pressure)) \<and>
   \<not> detectAnomaly [(''d'', mixed_history)] ''d'' ''s2'' (sample_reading ''d'' pressure 1020) \<and>
   \<bar>reading_value (sample_reading ''d'' pressure 1020) -
      mean (map reading_value (slice_last 10 (readingsOfSensor [(''d'', mixed_history)] ''d'' pressure)))\<bar>
     > 2 * std_dev (map reading_value
             (slice_last 10 (readingsOfSensor [(''d'', mixed_history)] ''d'' pressure))) \<and>
   js_gt (Math_abs (js_sub (Num (reading_value (sample_reading ''d'' pressure 1020)))
            (double_mean (map reading_value
               (slice_last 10 (readingsOfSensor [(''d'', mixed_history)] ''d'' pressure))))))
         (js_mul (Num 2) (double_std_dev (map reading_value
               (slice_last 10 (readingsOfSensor [(''d'', mixed_history)] ''d'' pressure))))) \<and>
   \<bar>reading_value (sample_reading ''d'' pressure 1020) -
      mean (map reading_value
             (slice_last 10 (butlast (readingsOfSensor [(''d'', mixed_history)] ''d'' pressure))))\<bar>
     > 2 * std_dev (map reading_value
             (slice_last 10 (butlast (readingsOfSensor [(''d'', mixed_history)] ''d'' pressure)))) \<and>
   js_gt (Math_abs (js_sub (Num (reading_value (sample_reading ''d'' pressure 1020)))
            (double_mean (map reading_value
               (slice_last 10 (butlast (readingsOfSensor [(''d'', mixed_history)] ''d'' pressure)))))))
         (js_mul (Num 2) (double_std_dev (map reading_value
               (slice_last 10 (butlast (readingsOfSensor [(''d'', mixed_history)] ''d'' pressure))))))"
proof -
  have v: "reading_value (sample_reading ''d'' pressure 1020) = 1020"
    by (simp add: sample_reading_def)
  have len: "5 \<le> length (butlast (readingsOfSensor [(''d'', mixed_history)] ''d'' pressure))"
    by (simp add: mixed_history_values)
  have "5 \<le> length (readingsOf [(''d'', mixed_history)] ''d'')"
    by (simp add: mixed_history_values)
  then have "detectAnomaly [(''d'', mixed_history)] ''d'' ''s2'' (sample_reading ''d'' pressure 1020) =
     js_gt (Math_abs (js_sub (Num (reading_value (sample_reading ''d'' pressure 1020)))
              (double_mean (map reading_value
                 (slice_last 10 (readingsOf [(''d'', mixed_history)] ''d''))))))
           (js_mul (Num 2) (double_std_dev (map reading_value
                 (slice_last 10 (readingsOf [(''d'', mixed_history)] ''d'')))))"
    by (rule detectAnomaly_window)
  then have code: "\<not> detectAnomaly [(''d'', mixed_history)] ''d'' ''s2''
      (sample_reading ''d'' pressure 1020)"
    using device_window_test by (simp only: mixed_history_values v simp_thms)
  show ?thesis
    unfolding mixed_history_values v
    using len code mixed_history_sensor_window mixed_history_sensor_prior
      sensor_window_test sensor_prior_test
    by (simp only: mixed_history_values v simp_thms)
qed

subsection \<open>The bounded history\<close>

lemma pollDevice_fifo:
  assumes "length (readingsOf store d) \<le> 1000"
  shows "readingsOf (fst (snd (pollDevice env hm device store))) d =
     slice_last 1000 (readingsOf store d @
        polledReadings d [(k, fst (pollDevice env hm device store))])"
proof (cases "device_status device = ''online''")
  case False
  then show ?thesis using assms by (simp add: pollDevice_def polledReadings_def slice_last_id)
next
  case online: True
  show ?thesis
  proof (cases "d = device_id device")
    case True
    with assms online show ?thesis
      by (simp add: pollDevice_def polledReadings_def collectSensorData_device
            collectSensorData_store collectSensors_fifo)
  next
    case False
    with assms online show ?thesis
      by (simp add: pollDevice_def polledReadings_def collectSensorData_device
            collectSensorData_store collectSensors_other slice_last_id)
  qed
qed

lemma polledReadings_Cons:
  "polledReadings d (e # es) = polledReadings d [e] @ polledReadings d es"
  by (simp add: polledReadings_def)

lemma pollDevices_fifo:
  "length (readingsOf store d) \<le> 1000 \<Longrightarrow>
   readingsOf (fst (snd (pollDevices env hm entries store))) d =
     slice_last 1000 (readingsOf store d @
        polledReadings d (fst (pollDevices env hm entries store)))"
proof (induction entries arbitrary: env store)
  case Nil
  then show ?case by (simp add: polledReadings_def slice_last_id)
next
  case (Cons e entries)
  obtain k device where e: "e = (k, device)" by (cases e)
  have step: "readingsOf (fst (snd (pollDevice env hm device store))) d =
     slice_last 1000 (readingsOf store d @
        polledReadings d [(k, fst (pollDevice env hm device store))])"
    using Cons.prems by (rule pollDevice_fifo)
  then have le: "length (readingsOf (fst (snd (pollDevice env hm device store))) d) \<le> 1000"
    by (simp add: slice_last_length)
  show ?case
    unfolding e pollDevices_Cons_entries pollDevices_Cons_store
    apply (subst Cons.IH[OF le])
    apply (subst polledReadings_Cons)
    apply (simp only: step slice_last_append_absorb append_assoc)
    done
qed

lemma pollCycle_fst:
  "fst (pollCycle env svc) =
     svc\<lparr>devices := fst (pollDevices env (eventHandlers svc) (devices svc) (sensorReadings svc)),
         sensorReadings :=
           fst (snd (pollDevices env (eventHandlers svc) (devices svc) (sensorReadings svc)))\<rparr>"
  by (simp add: pollCycle_def split: prod.splits)

lemma pollCycle_fifo:
  "length (readingsOf (sensorReadings svc) d) \<le> 1000 \<Longrightarrow>
   readingsOf (sensorReadings (fst (pollCycle env svc))) d =
     slice_last 1000 (readingsOf (sensorReadings svc) d @
        polledReadings d (devices (fst (pollCycle env svc))))"
  using pollDevices_fifo[of "sensorReadings svc" d env "eventHandlers svc" "devices svc"]
  by (simp add: pollCycle_fst)

lemma pollCycles_Suc_fst:
  "fst (pollCycles (Suc n) env svc) =
     fst (pollCycles n (snd (snd (pollCycle env svc))) (fst (pollCycle env svc)))"
  by (simp add: Let_def split: prod.splits)

lemma pollCycles_fifo:
  "length (readingsOf (sensorReadings svc) d) \<le> 1000 \<Longrightarrow>
   \<exists>new. readingsOf (sensorReadings (fst (pollCycles n env svc))) d =
     slice_last 1000 (readingsOf (sensorReadings svc) d @ new)"
proof (induction n arbitrary: env svc)
  case 0
  then show ?case by (auto simp: slice_last_id intro: exI[of _ "[]"])
next
  case (Suc n)
  let ?svc1 = "fst (pollCycle env svc)"
  let ?env1 = "snd (snd (pollCycle env svc))"
  have one: "readingsOf (sensorReadings ?svc1) d =
     slice_last 1000 (readingsOf (sensorReadings svc) d @ polledReadings d (devices ?svc1))"
    using Suc.prems by (rule pollCycle_fifo)
  then have le: "length (readingsOf (sensorReadings ?svc1) d) \<le> 1000"
    by (simp add: slice_last_length)
  from Suc.IH[OF le, of ?env1]
  obtain new where new: "readingsOf (sensorReadings (fst (pollCycles n ?env1 ?svc1))) d =
      slice_last 1000 (readingsOf (sensorReadings ?svc1) d @ new)"
    by blast
  have "readingsOf (sensorReadings (fst (pollCycles (Suc n) env svc))) d =
      slice_last 1000 (readingsOf (sensorReadings svc) d @ (polledReadings d (devices ?svc1) @ new))"
    unfolding pollCycles_Suc_fst new one by (simp only: slice_last_append_absorb append_assoc)
  then show ?case by blast
qed

lemma deploy_fold_sensorReadings:
  "sensorReadings (foldl (\<lambda>s trigger. addEventListener s trigger h) svc triggers) =
     sensorReadings svc"
  by (induction triggers arbitrary: svc) (simp_all add: addEventListener_def)

text \<open>No operation of the service leaves a history of more than 1000 readings.\<close>

lemma reachable_bound:
  "reachable svc \<Longrightarrow> length (readingsOf (sensorReadings svc) d) \<le> 1000"
proof (induction rule: reachable.induct)
  case r_init
  then show ?case by (simp add: initialService_def readingsOf_def)
next
  case (r_register svc env deviceConfig device svc' env')
  then show ?case
    by (auto simp: registerDevice_def Let_def readingsOf_update split: prod.splits)
next
  case (r_poll svc env svc' alerts env')
  then show ?case
    using pollCycle_fifo[of svc d env] by (simp add: slice_last_length)
next
  case (r_health svc env deviceId svc' env')
  then show ?case
    by (auto simp: checkDeviceHealth_def Let_def split: option.splits prod.splits if_splits)
next
  case (r_deploy svc deviceId functionCode triggers res svc')
  then show ?case
    by (auto simp: deployEdgeFunction_def deploy_fold_sensorReadings split: option.splits)
next
  case (r_scan svc env deviceId scanned svc' env')
  then show ?case
    by (auto simp: performSecurityScan_def Let_def split: option.splits prod.splits)
next
  case (r_firmware svc env deviceId version res svc' env')
  then show ?case
    by (auto simp: updateDeviceFirmware_def Let_def split: option.splits prod.splits)
qed

text \<open>
  \<^bold>\<open>C2\<close>. In every reachable state of the service, and so after any number of poll cycles,
  the history of every device holds at most 1000 readings. A poll cycle leaves as history
  the last 1000 entries of the history before it followed by the readings it appended, in
  this order: what is evicted is a prefix of the old history, the oldest entries, and the
  survivors keep their order. The same holds across any number of poll cycles.
\<close>

theorem history_bounded_fifo:
  "reachable svc \<Longrightarrow>
     length (readingsOf (sensorReadings svc) deviceId) \<le> 1000 \<and>
     length (readingsOf (sensorReadings (fst (pollCycles n env svc))) deviceId) \<le> 1000 \<and>
     (\<exists>new. readingsOf (sensorReadings (fst (pollCycles n env svc))) deviceId =
        slice_last 1000 (readingsOf (sensorReadings svc) deviceId @ new)) \<and>
     readingsOf (sensorReadings (fst (pollCycle env svc))) deviceId =
        slice_last 1000 (readingsOf (sensorReadings svc) deviceId @
           polledReadings deviceId (devices (fst (pollCycle env svc))))"
proof -
  assume "reachable svc"
  then have le: "length (readingsOf (sensorReadings svc) deviceId) \<le> 1000"
    by (rule reachable_bound)
  from pollCycles_fifo[OF le, of n env]
  obtain new where new: "readingsOf (sensorReadings (fst (pollCycles n env svc))) deviceId =
        slice_last 1000 (readingsOf (sensorReadings svc) deviceId @ new)"
    by blast
  then have "length (readingsOf (sensorReadings (fst (pollCycles n env svc))) deviceId) \<le> 1000"
    by (simp add: slice_last_length)
  with le new pollCycle_fifo[OF le, of env] show ?thesis by blast
qed

lemma reachable_sample_service: "reachable sample_service"
  unfolding sample_service_def
  by (rule r_register[OF r_init, where env = "sample_env (9/10)"
        and deviceConfig = "parkingDevice (sample_location 0 0)"
        and device = "fst (registerDevice (sample_env (9/10)) initialService
                 (parkingDevice (sample_location 0 0)))"
        and env' = "snd (snd (registerDevice (sample_env (9/10)) initialService
                 (parkingDevice (sample_location 0 0))))"]) simp

lemma sample_service_history:
  "readingsOf (sensorReadings sample_service) ''u'' = [] \<and>
   map reading_value
     (readingsOf (sensorReadings (fst (pollCycle (sample_env (9/10)) sample_service))) ''u'') = [1, 30]"
  by (simp add: sample_defs env_defs poll_defs Let_def)

text \<open>A full history loses its oldest entry to a new reading.\<close>

lemma storeReading_evicts_oldest:
  "map reading_value
     (readingsOf (storeReading [(''d'', map (\<lambda>i. sample_reading ''d'' camera (real i)) [0..<1000])]
                    ''d'' (sample_reading ''d'' camera 1000)) ''d'') =
   map real [1..<1001]"
proof -
  have "[1..<1001] = [1..<1000] @ [1000]"
    using upt_Suc_append[of 1 1000] by simp
  moreover have "readingsOf [(''d'', xs)] ''d'' = xs" for xs
    by (simp add: readingsOf_def)
  ultimately show ?thesis
    by (simp add: readingsOf_storeReading slice_last_def drop_map sample_reading_def comp_def)
qed

theorem history_bounded_fifo_witness:
  "reachable sample_service \<and>
   length (readingsOf (sensorReadings (fst (pollCycles 3 (sample_env (9/10)) sample_service))) ''u'')
     \<le> 1000 \<and>
   map reading_value
     (readingsOf (sensorReadings (fst (pollCycle (sample_env (9/10)) sample_service))) ''u'') =
     [1, 30]"
  using history_bounded_fifo[OF reachable_sample_service, of "''u''" 3 "sample_env (9/10)"]
    reachable_sample_service sample_service_history
  by simp

subsection \<open>Registration\<close>

lemma makeSensor_eq:
  "makeSensor env sensorConfig =
     (\<lparr>sensor_id = uuid_stream env 0,
       sensor_type = cfg_sensor_type sensorConfig,
       sensor_unit = cfg_unit sensorConfig,
       sensor_range = cfg_range sensorConfig,
       sensor_accuracy = cfg_accuracy sensorConfig,
       lastReading = \<lparr>reading_id = uuid_stream env 1, reading_value = 0,
                       reading_timestamp = clock_stream env 0,
                       reading_quality = good, reading_metadata = None\<rparr>,
       calibration = \<lparr>lastCalibrated = clock_stream env 1,
                       nextCalibration = clock_stream env 2 + 30 * 24 * 60 * 60 * 1000,
                       cal_offset = 0, cal_scale = 1\<rparr>\<rparr>,
      env\<lparr>uuid_stream := (\<lambda>n. uuid_stream env (n + 2)),
          clock_stream := (\<lambda>n. clock_stream env (n + 3))\<rparr>)"
  by (simp add: makeSensor_def randomUUID_def Date_now_def Let_def eval_nat_numeral)

lemma makeSensors_Cons:
  "fst (makeSensors env (c # cs)) =
     fst (makeSensor env c) # fst (makeSensors (snd (makeSensor env c)) cs)"
  by (simp add: Let_def split: prod.splits)

lemma length_makeSensors: "length (fst (makeSensors env cs)) = length cs"
  by (induction cs arbitrary: env) (simp_all add: makeSensors_Cons del: makeSensors.simps(2))

lemma makeSensors_nth:
  "i < length cs \<Longrightarrow>
   fst (makeSensors env cs) ! i =
     fst (makeSensor (env\<lparr>uuid_stream := (\<lambda>n. uuid_stream env (n + 2 * i)),
                          clock_stream := (\<lambda>n. clock_stream env (n + 3 * i))\<rparr>) (cs ! i))"
proof (induction cs arbitrary: env i)
  case Nil
  then show ?case by simp
next
  case (Cons c cs)
  show ?case
  proof (cases i)
    case 0
    then show ?thesis by (simp add: makeSensors_Cons del: makeSensors.simps(2))
  next
    case (Suc j)
    with Cons.prems have "j < length cs" by simp
    from Cons.IH[OF this, of "snd (makeSensor env c)"] Suc
    show ?thesis
      by (simp add: makeSensors_Cons makeSensor_eq add.assoc add.commute add.left_commute
            del: makeSensors.simps(2))
  qed
qed

lemma update_fresh_key: "k \<notin> fst ` set al \<Longrightarrow> AList.update k v al = al @ [(k, v)]"
  by (induction al) auto

lemma registerDevice_device:
  "fst (registerDevice env svc deviceConfig) =
     \<lparr>device_id = uuid_stream env 0,
      device_type = cfg_type deviceConfig,
      device_location = cfg_location deviceConfig,
      device_status = ''online'',
      sensors = fst (makeSensors (snd (randomUUID env)) (cfg_sensors deviceConfig)),
      connectivity =
        \<lparr>conn_type = cfg_conn_type (cfg_connectivity deviceConfig),
         conn_strength = cfg_strength (cfg_connectivity deviceConfig),
         conn_protocol = cfg_protocol (cfg_connectivity deviceConfig),
         lastSeen = fst (Date_now (snd (makeSensors (snd (randomUUID env)) (cfg_sensors deviceConfig)))),
         dataUsage = 0\<rparr>,
      firmware = firmware (fst (registerDevice env svc deviceConfig)),
      security = security (fst (registerDevice env svc deviceConfig))\<rparr>"
  by (simp add: registerDevice_def Let_def randomUUID_def split: prod.splits)

lemma registerDevice_service:
  "fst (snd (registerDevice env svc deviceConfig)) =
     svc\<lparr>devices := AList.update (uuid_stream env 0) (fst (registerDevice env svc deviceConfig))
                       (devices svc),
         sensorReadings := AList.update (uuid_stream env 0) [] (sensorReadings svc)\<rparr>"
  by (simp add: registerDevice_def Let_def randomUUID_def split: prod.splits)

text \<open>
  The identifiers. Only \<open>randomUUID\<close> moves the generator of identifiers on: a sensor takes
  two identifiers, a registration one more than twice the number of its sensors, a
  synthesized reading one, and no other step takes any.
\<close>

lemma uuid_makeSensors:
  "uuid_stream (snd (makeSensors env cs)) = (\<lambda>n. uuid_stream env (n + 2 * length cs))"
proof (induction cs arbitrary: env)
  case Nil
  then show ?case by simp
next
  case (Cons c cs)
  have "snd (makeSensors env (c # cs)) = snd (makeSensors (snd (makeSensor env c)) cs)"
    by (simp add: Let_def split: prod.splits)
  then show ?case
    by (simp add: Cons.IH makeSensor_eq add.assoc)
qed

lemma uuid_registerDevice:
  "uuid_stream (snd (snd (registerDevice env svc deviceConfig))) =
     (\<lambda>n. uuid_stream env (n + (1 + 2 * length (cfg_sensors deviceConfig))))"
proof -
  have "uuid_stream (snd (snd (registerDevice env svc deviceConfig))) =
      uuid_stream (snd (makeSensors (snd (randomUUID env)) (cfg_sensors deviceConfig)))"
    by (simp add: registerDevice_def Let_def Date_now_def split: prod.splits)
  then show ?thesis
    by (simp add: uuid_makeSensors randomUUID_def add.assoc)
qed

lemma uuid_getBaseValueForSensor:
  "uuid_stream (snd (getBaseValueForSensor env ty location)) = uuid_stream env"
  by (simp add: getBaseValueForSensor_def Math_random_def Date_now_def Let_def
        split: option.splits SensorType.splits)

lemma uuid_generateSensorReading:
  "uuid_stream (snd (generateSensorReading env sensor device)) = (\<lambda>n. uuid_stream env (Suc n))"
proof -
  have "uuid_stream (snd (generateSensorReading env sensor device)) =
      (\<lambda>n. uuid_stream
              (snd (getBaseValueForSensor env (sensor_type sensor) (device_location device)))
              (Suc n))"
    by (simp add: generateSensorReading_def randomUUID_def Math_random_def Date_now_def Let_def
          split: prod.splits)
  then show ?thesis by (simp add: uuid_getBaseValueForSensor)
qed

lemma uuid_triggerEventHandlers:
  "uuid_stream (triggerEventHandlers env hm eventType) = uuid_stream env"
proof -
  have "uuid_stream (foldl runHandler env hs) = uuid_stream env" for hs
  proof (induction hs arbitrary: env)
    case Nil
    then show ?case by simp
  next
    case (Cons h hs)
    obtain deviceId functionCode where h: "h = EdgeFunctionHandler deviceId functionCode"
      by (cases h)
    show ?case
      by (simp add: Cons.IH h executeEdgeFunction_def processAtEdge_def Math_random_def
            Date_now_def)
  qed
  then show ?thesis by (simp add: triggerEventHandlers_def)
qed

lemma uuid_processReading:
  "uuid_stream (snd (processReading env hm store device sensor reading)) = uuid_stream env"
  by (simp add: processReading_def triggerAlert_def uuid_triggerEventHandlers Let_def
        split: option.splits)

lemma collectSensors_Cons_env:
  "snd (snd (snd (collectSensors env hm device (s # ss) store))) =
     snd (snd (snd (collectSensors
        (snd (processReading (snd (generateSensorReading env s device)) hm
               (storeReading store (device_id device) (fst (generateSensorReading env s device)))
               device (s\<lparr>lastReading := fst (generateSensorReading env s device)\<rparr>)
               (fst (generateSensorReading env s device))))
        hm device ss
        (storeReading store (device_id device) (fst (generateSensorReading env s device))))))"
  by (simp add: Let_def split: prod.splits)

lemma uuid_collectSensors:
  "uuid_stream (snd (snd (snd (collectSensors env hm device ss store)))) =
     (\<lambda>n. uuid_stream env (n + length ss))"
proof (induction ss arbitrary: env store)
  case Nil
  then show ?case by simp
next
  case (Cons s ss)
  show ?case
    unfolding collectSensors_Cons_env
    by (simp add: Cons.IH uuid_processReading uuid_generateSensorReading)
qed

lemma uuid_pollDevice:
  "\<exists>k. uuid_stream (snd (snd (snd (pollDevice env hm device store)))) =
         (\<lambda>n. uuid_stream env (n + k))"
proof (cases "device_status device = ''online''")
  case True
  have "snd (snd (snd (collectSensorData env hm device store))) =
      snd (snd (snd (collectSensors env hm device (sensors device) store)))"
    by (simp add: collectSensorData_def split: prod.splits)
  with True have "uuid_stream (snd (snd (snd (pollDevice env hm device store)))) =
      (\<lambda>n. uuid_stream env (n + length (sensors device)))"
    by (simp add: pollDevice_def uuid_collectSensors)
  then show ?thesis by blast
next
  case False
  then have "uuid_stream (snd (snd (snd (pollDevice env hm device store)))) =
      (\<lambda>n. uuid_stream env (n + 0))"
    by (simp add: pollDevice_def)
  then show ?thesis by blast
qed

lemma pollDevices_Cons_env:
  "snd (snd (snd (pollDevices env hm ((k, device) # rest) store))) =
     snd (snd (snd (pollDevices (snd (snd (snd (pollDevice env hm device store)))) hm rest
            (fst (snd (pollDevice env hm device store))))))"
  by (simp add: Let_def split: prod.splits)

lemma uuid_pollDevices:
  "\<exists>k. uuid_stream (snd (snd (snd (pollDevices env hm entries store)))) =
         (\<lambda>n. uuid_stream env (n + k))"
proof (induction entries arbitrary: env store)
  case Nil
  have "uuid_stream (snd (snd (snd (pollDevices env hm [] store)))) =
      (\<lambda>n. uuid_stream env (n + 0))"
    by simp
  then show ?case by blast
next
  case (Cons e entries)
  obtain key device where e: "e = (key, device)" by (cases e)
  let ?env1 = "snd (snd (snd (pollDevice env hm device store)))"
  let ?store1 = "fst (snd (pollDevice env hm device store))"
  from uuid_pollDevice obtain j where j: "uuid_stream ?env1 = (\<lambda>n. uuid_stream env (n + j))"
    by blast
  from Cons.IH obtain k where
    k: "uuid_stream (snd (snd (snd (pollDevices ?env1 hm entries ?store1)))) =
          (\<lambda>n. uuid_stream ?env1 (n + k))"
    by blast
  have "uuid_stream (snd (snd (snd (pollDevices env hm (e # entries) store)))) =
      (\<lambda>n. uuid_stream env (n + (k + j)))"
    unfolding e pollDevices_Cons_env k j by (simp add: add.assoc)
  then show ?case by blast
qed

lemma pollDevices_keys:
  "map fst (fst (pollDevices env hm entries store)) = map fst entries"
proof (induction entries arbitrary: env store)
  case Nil
  then show ?case by simp
next
  case (Cons e entries)
  obtain key device where e: "e = (key, device)" by (cases e)
  show ?case
    unfolding e pollDevices_Cons_entries by (simp add: Cons.IH)
qed

lemma pollCycle_identifiers:
  "(\<exists>k. uuid_stream (snd (snd (pollCycle env svc))) = (\<lambda>n. uuid_stream env (n + k))) \<and>
   map fst (devices (fst (pollCycle env svc))) = map fst (devices svc)"
proof -
  have "snd (snd (pollCycle env svc)) =
      snd (snd (snd (pollDevices env (eventHandlers svc) (devices svc) (sensorReadings svc))))"
    and "devices (fst (pollCycle env svc)) =
      fst (pollDevices env (eventHandlers svc) (devices svc) (sensorReadings svc))"
    by (simp_all add: pollCycle_def split: prod.splits)
  then show ?thesis
    using uuid_pollDevices[of env "eventHandlers svc" "devices svc" "sensorReadings svc"]
    by (simp add: pollDevices_keys)
qed

lemma deploy_fold_devices:
  "devices (foldl (\<lambda>s trigger. addEventListener s trigger h) svc triggers) = devices svc"
  by (induction triggers arbitrary: svc) (simp_all add: addEventListener_def)

lemma update_known_key:
  "map_of al k = Some v \<Longrightarrow> fst ` set (AList.update k v' al) = fst ` set al"
  by (auto simp: dom_update dest: map_of_SomeD intro: rev_image_eqI)

lemma named_operations_identifiers:
  "uuid_stream (snd (checkDeviceHealth env svc deviceId)) = uuid_stream env"
  "fst ` set (devices (fst (checkDeviceHealth env svc deviceId))) = fst ` set (devices svc)"
  "fst ` set (devices (snd (deployEdgeFunction svc deviceId functionCode triggers))) =
     fst ` set (devices svc)"
  "uuid_stream (snd (snd (performSecurityScan env svc deviceId))) = uuid_stream env"
  "fst ` set (devices (fst (snd (performSecurityScan env svc deviceId)))) = fst ` set (devices svc)"
  "uuid_stream (snd (snd (updateDeviceFirmware env svc deviceId version))) = uuid_stream env"
  "fst ` set (devices (fst (snd (updateDeviceFirmware env svc deviceId version)))) =
     fst ` set (devices svc)"
  by (simp_all add: checkDeviceHealth_def deployEdgeFunction_def performSecurityScan_def
        updateDeviceFirmware_def scanForVulnerabilities_def Math_random_def Date_now_def
        Let_def deploy_fold_devices update_known_key split: option.splits prod.splits)

text \<open>
  In a run, the generator of identifiers has handed out the first \<open>k\<close> identifiers of the
  initial environment for some \<open>k\<close> and continues with the next, and every key of the registry
  is one of these \<open>k\<close> identifiers.
\<close>

lemma run_identifiers:
  "run env0 p \<Longrightarrow>
   \<exists>k. uuid_stream (snd p) = (\<lambda>n. uuid_stream env0 (n + k)) \<and>
       fst ` set (devices (fst p)) \<subseteq> uuid_stream env0 ` {..<k}"
proof (induction rule: run.induct)
  case run_init
  show ?case by (intro exI[of _ 0]) (simp add: initialService_def)
next
  case (run_register svc env deviceConfig device svc' env')
  then obtain k where k: "uuid_stream env = (\<lambda>n. uuid_stream env0 (n + k))"
    and keys: "fst ` set (devices svc) \<subseteq> uuid_stream env0 ` {..<k}"
    by auto
  let ?j = "1 + 2 * length (cfg_sensors deviceConfig)"
  from run_register.hyps(2)
  have svc': "svc' = fst (snd (registerDevice env svc deviceConfig))"
    and env': "env' = snd (snd (registerDevice env svc deviceConfig))"
    by simp_all
  have "uuid_stream env' = (\<lambda>n. uuid_stream env0 (n + (?j + k)))"
    unfolding env' uuid_registerDevice k by (simp add: add.assoc)
  moreover have "fst ` set (devices svc') = insert (uuid_stream env0 k) (fst ` set (devices svc))"
    unfolding svc' registerDevice_service by (simp add: dom_update k)
  then have "fst ` set (devices svc') \<subseteq> uuid_stream env0 ` {..<?j + k}"
    using keys by auto
  ultimately show ?case by (simp del: One_nat_def) blast
next
  case (run_poll svc env svc' alerts env')
  then obtain k where k: "uuid_stream env = (\<lambda>n. uuid_stream env0 (n + k))"
    and keys: "fst ` set (devices svc) \<subseteq> uuid_stream env0 ` {..<k}"
    by auto
  from run_poll.hyps(2) have svc': "svc' = fst (pollCycle env svc)"
    and env': "env' = snd (snd (pollCycle env svc))"
    by simp_all
  from pollCycle_identifiers[of env svc] obtain j
    where j: "uuid_stream env' = (\<lambda>n. uuid_stream env (n + j))"
      and same: "map fst (devices svc') = map fst (devices svc)"
    unfolding svc' env' by blast
  have "uuid_stream env' = (\<lambda>n. uuid_stream env0 (n + (j + k)))"
    unfolding j k by (simp add: add.assoc)
  moreover have "fst ` set (devices svc') = fst ` set (devices svc)"
    using arg_cong[OF same, of set] by simp
  then have "fst ` set (devices svc') \<subseteq> uuid_stream env0 ` {..<j + k}"
    using keys by auto
  ultimately show ?case by simp blast
next
  case (run_health svc env deviceId svc' env')
  from run_health.hyps(2) have "svc' = fst (checkDeviceHealth env svc deviceId)"
    and "env' = snd (checkDeviceHealth env svc deviceId)"
    by simp_all
  with run_health.IH show ?case by (simp add: named_operations_identifiers)
next
  case (run_deploy svc env deviceId functionCode triggers res svc')
  from run_deploy.hyps(2)
  have "svc' = snd (deployEdgeFunction svc deviceId functionCode triggers)"
    by simp
  with run_deploy.IH show ?case by (simp add: named_operations_identifiers)
next
  case (run_scan svc env deviceId scanned svc' env')
  from run_scan.hyps(2) have "svc' = fst (snd (performSecurityScan env svc deviceId))"
    and "env' = snd (snd (performSecurityScan env svc deviceId))"
    by simp_all
  with run_scan.IH show ?case by (simp add: named_operations_identifiers)
next
  case (run_firmware svc env deviceId version res svc' env')
  from run_firmware.hyps(2) have "svc' = fst (snd (updateDeviceFirmware env svc deviceId version))"
    and "env' = snd (snd (updateDeviceFirmware env svc deviceId version))"
    by simp_all
  with run_firmware.IH show ?case by (simp add: named_operations_identifiers)
qed

lemma run_next_identifier_fresh:
  assumes "run env0 (svc, env)" and "inj (uuid_stream env0)"
  shows "uuid_stream env 0 \<notin> fst ` set (devices svc)"
proof
  assume member: "uuid_stream env 0 \<in> fst ` set (devices svc)"
  from run_identifiers[OF assms(1)] obtain k
    where k: "uuid_stream env = (\<lambda>n. uuid_stream env0 (n + k))"
      and keys: "fst ` set (devices svc) \<subseteq> uuid_stream env0 ` {..<k}"
    by auto
  from member keys k obtain j where "j < k" "uuid_stream env0 j = uuid_stream env0 k"
    by auto
  with assms(2) show False by (auto dest: injD)
qed

lemma run_reachable: "run env0 p \<Longrightarrow> reachable (fst p)"
  by (induction rule: run.induct) (auto intro: reachable.intros)

text \<open>
  \<^bold>\<open>C6\<close>. Registration has no failing path: it returns a device for every specification, in
  every state. The device has one sensor for every sensor of the specification, in the
  same order and with the declared type, unit, range and accuracy; the last reading of
  every sensor has the value 0; the status is online; and the next calibration of every
  sensor is 30 days after the time that the clock shows when the sensor is built during
  registration. The device is stored in the registry under its identifier with an empty
  history. The identifier is the next one of the generator of identifiers. In a run of the
  service whose generator never hands out the same identifier twice, this identifier is
  not a key of the registry before the registration, so that no registered device is
  replaced: the registry is extended at its end, and the run goes on.
\<close>

theorem registerDevice_fresh:
  "(case registerDevice env svc deviceConfig of (device, svc', env') \<Rightarrow>
      length (sensors device) = length (cfg_sensors deviceConfig) \<and>
      (\<forall>i < length (cfg_sensors deviceConfig).
         reading_value (lastReading (sensors device ! i)) = 0 \<and>
         sensor_type (sensors device ! i) = cfg_sensor_type (cfg_sensors deviceConfig ! i) \<and>
         sensor_unit (sensors device ! i) = cfg_unit (cfg_sensors deviceConfig ! i) \<and>
         sensor_range (sensors device ! i) = cfg_range (cfg_sensors deviceConfig ! i) \<and>
         sensor_accuracy (sensors device ! i) = cfg_accuracy (cfg_sensors deviceConfig ! i) \<and>
         nextCalibration (calibration (sensors device ! i)) =
           clock_stream env (3 * i + 2) + 30 * 24 * 60 * 60 * 1000) \<and>
      device_status device = ''online'' \<and>
      device_id device = fst (randomUUID env) \<and>
      map_of (devices svc') (device_id device) = Some device \<and>
      readingsOf (sensorReadings svc') (device_id device) = [] \<and>
      (run env0 (svc, env) \<and> inj (uuid_stream env0) \<longrightarrow>
         device_id device \<notin> fst ` set (devices svc) \<and>
         devices svc' = devices svc @ [(device_id device, device)] \<and>
         run env0 (svc', env')))"
proof -
  let ?R = "registerDevice env svc deviceConfig"
  let ?device = "fst ?R" and ?svc' = "fst (snd ?R)" and ?env' = "snd (snd ?R)"
  have sens: "sensors ?device = fst (makeSensors (snd (randomUUID env)) (cfg_sensors deviceConfig))"
    by (subst registerDevice_device) simp
  have id: "device_id ?device = uuid_stream env 0"
    by (subst registerDevice_device) simp
  have st: "device_status ?device = ''online''"
    by (subst registerDevice_device) simp
  have len: "length (sensors ?device) = length (cfg_sensors deviceConfig)"
    by (simp add: sens length_makeSensors)
  have each: "reading_value (lastReading (sensors ?device ! i)) = 0 \<and>
         sensor_type (sensors ?device ! i) = cfg_sensor_type (cfg_sensors deviceConfig ! i) \<and>
         sensor_unit (sensors ?device ! i) = cfg_unit (cfg_sensors deviceConfig ! i) \<and>
         sensor_range (sensors ?device ! i) = cfg_range (cfg_sensors deviceConfig ! i) \<and>
         sensor_accuracy (sensors ?device ! i) = cfg_accuracy (cfg_sensors deviceConfig ! i) \<and>
         nextCalibration (calibration (sensors ?device ! i)) =
           clock_stream env (3 * i + 2) + 30 * 24 * 60 * 60 * 1000"
    if "i < length (cfg_sensors deviceConfig)" for i
    using that by (simp add: sens makeSensors_nth makeSensor_eq randomUUID_def add.commute)
  have reg: "map_of (devices ?svc') (device_id ?device) = Some ?device"
    by (simp add: registerDevice_service id update_conv')
  have hist: "readingsOf (sensorReadings ?svc') (device_id ?device) = []"
    by (simp add: registerDevice_service id readingsOf_update)
  have fresh: "device_id ?device \<notin> fst ` set (devices svc) \<and>
      devices ?svc' = devices svc @ [(device_id ?device, ?device)] \<and>
      run env0 (?svc', ?env')"
    if r: "run env0 (svc, env)" and i: "inj (uuid_stream env0)"
  proof -
    from r i have new: "uuid_stream env 0 \<notin> fst ` set (devices svc)"
      by (rule run_next_identifier_fresh)
    then have "devices ?svc' = devices svc @ [(device_id ?device, ?device)]"
      by (simp add: registerDevice_service id update_fresh_key)
    moreover have "run env0 (?svc', ?env')"
      by (rule run_register[OF r, of deviceConfig ?device]) simp
    ultimately show ?thesis using new by (simp add: id)
  qed
  from len each st id reg hist fresh show ?thesis
    by (simp add: split_def randomUUID_def)
qed

text \<open>
  A second registration in the run that registered the parking device of the sample
  service: the generator has handed out five identifiers, and the traffic device gets the
  sixth.
\<close>

theorem registerDevice_fresh_witness:
  "run (sample_env (9/10))
     (sample_service,
      snd (snd (registerDevice (sample_env (9/10)) initialService
                  (parkingDevice (sample_location 0 0))))) \<and>
   inj (uuid_stream (sample_env (9/10))) \<and>
   (2 :: nat) < length (cfg_sensors (trafficDevice (sample_location 0 0))) \<and>
   (case registerDevice
           (snd (snd (registerDevice (sample_env (9/10)) initialService
                        (parkingDevice (sample_location 0 0)))))
           sample_service (trafficDevice (sample_location 0 0)) of
      (device, svc', env') \<Rightarrow>
        device_id device = ''uuuuuu'' \<and> device_status device = ''online'' \<and>
        device_id device \<notin> fst ` set (devices sample_service) \<and>
        map (\<lambda>s. (sensor_type s, reading_value (lastReading s), nextCalibration (calibration s)))
          (sensors device) =
          [(camera, 0, 2592001012), (motion, 0, 2592001015), (proximity, 0, 2592001018)] \<and>
        map fst (devices svc') = [''u'', ''uuuuuu''] \<and>
        map_of (devices svc') ''uuuuuu'' = Some device \<and>
        readingsOf (sensorReadings svc') ''uuuuuu'' = [])"
proof -
  let ?env0 = "sample_env (9/10)"
  let ?first = "registerDevice ?env0 initialService (parkingDevice (sample_location 0 0))"
  let ?env1 = "snd (snd ?first)"
  have r: "run ?env0 (sample_service, ?env1)"
    unfolding sample_service_def
    by (rule run_register[OF run_init, of _ _ "fst ?first"]) simp
  have i: "inj (uuid_stream ?env0)"
    by (auto simp: inj_def sample_env_def dest: arg_cong[where f = length])
  have n: "(2 :: nat) < length (cfg_sensors (trafficDevice (sample_location 0 0)))"
    by (simp add: trafficDevice_def trafficSensors_def)
  have env1: "?env1 = \<lparr>uuid_stream = (\<lambda>n. ''uuuuuu'' @ replicate n (CHR ''u'')),
      random_stream = (\<lambda>n. 9/10), clock_stream = (\<lambda>n. 1010 + int n)\<rparr>"
    by (simp add: sample_defs env_defs Let_def add.commute)
  from r i registerDevice_fresh[where env = ?env1 and svc = sample_service
      and deviceConfig = "trafficDevice (sample_location 0 0)" and ?env0.0 = ?env0]
  have new: "device_id (fst (registerDevice ?env1 sample_service
      (trafficDevice (sample_location 0 0)))) \<notin> fst ` set (devices sample_service)"
    unfolding split_def by blast
  have result: "case registerDevice ?env1 sample_service (trafficDevice (sample_location 0 0)) of
      (device, svc', env') \<Rightarrow>
        device_id device = ''uuuuuu'' \<and> device_status device = ''online'' \<and>
        map (\<lambda>s. (sensor_type s, reading_value (lastReading s), nextCalibration (calibration s)))
          (sensors device) =
          [(camera, 0, 2592001012), (motion, 0, 2592001015), (proximity, 0, 2592001018)] \<and>
        map fst (devices svc') = [''u'', ''uuuuuu''] \<and>
        map_of (devices svc') ''uuuuuu'' = Some device \<and>
        readingsOf (sensorReadings svc') ''uuuuuu'' = []"
    unfolding env1
    by (simp add: sample_defs env_defs trafficDevice_def trafficSensors_def readingsOf_def Let_def)
  from r i n new result show ?thesis
    by (simp add: split_def)
qed

text \<open>
  The operations other than the poll cycle leave the sensors of every registered device,
  and so their last readings, as they are.
\<close>

lemma update_keeps_projection:
  "map_of al k = Some d \<Longrightarrow> f d' = f d \<Longrightarrow>
   map (\<lambda>(k, d). (k, f d)) (AList.update k d' al) = map (\<lambda>(k, d). (k, f d)) al"
  by (induction al) (auto split: if_splits)

lemma non_poll_keeps_sensors:
  "map (\<lambda>(k, d). (k, sensors d)) (devices (fst (checkDeviceHealth env svc deviceId))) =
     map (\<lambda>(k, d). (k, sensors d)) (devices svc)"
  "map (\<lambda>(k, d). (k, sensors d)) (devices (snd (deployEdgeFunction svc deviceId functionCode triggers))) =
     map (\<lambda>(k, d). (k, sensors d)) (devices svc)"
  "map (\<lambda>(k, d). (k, sensors d)) (devices (fst (snd (performSecurityScan env svc deviceId)))) =
     map (\<lambda>(k, d). (k, sensors d)) (devices svc)"
  "map (\<lambda>(k, d). (k, sensors d)) (devices (fst (snd (updateDeviceFirmware env svc deviceId version)))) =
     map (\<lambda>(k, d). (k, sensors d)) (devices svc)"
  by (auto simp: checkDeviceHealth_def deployEdgeFunction_def performSecurityScan_def
        updateDeviceFirmware_def Let_def deploy_fold_devices update_keeps_projection
        split: option.splits prod.splits)

subsection \<open>Operations on a device that is not registered\<close>

lemma not_registered_iff: "(map_of al k = None) = (k \<notin> fst ` set al)"
  by (simp add: map_of_eq_None_iff)

text \<open>
  \<^bold>\<open>C9\<close>. Deploying an edge function, scanning a device and updating its firmware throw, and
  then throw the error \<open>Device not found\<close>, if and only if the identifier is not a key of the
  registry. The failed call leaves the service as it was (and takes nothing from the random
  source or the clock).
\<close>

theorem device_not_found:
  "(fst (deployEdgeFunction svc deviceId functionCode triggers) = Inl (Error ''Device not found''))
      = (deviceId \<notin> fst ` set (devices svc)) \<and>
   isl (fst (deployEdgeFunction svc deviceId functionCode triggers))
      = (deviceId \<notin> fst ` set (devices svc)) \<and>
   (deviceId \<notin> fst ` set (devices svc) \<longrightarrow>
      snd (deployEdgeFunction svc deviceId functionCode triggers) = svc) \<and>
   (fst (performSecurityScan env svc deviceId) = Inl (Error ''Device not found''))
      = (deviceId \<notin> fst ` set (devices svc)) \<and>
   isl (fst (performSecurityScan env svc deviceId)) = (deviceId \<notin> fst ` set (devices svc)) \<and>
   (deviceId \<notin> fst ` set (devices svc) \<longrightarrow>
      snd (performSecurityScan env svc deviceId) = (svc, env)) \<and>
   (fst (updateDeviceFirmware env svc deviceId version) = Inl (Error ''Device not found''))
      = (deviceId \<notin> fst ` set (devices svc)) \<and>
   isl (fst (updateDeviceFirmware env svc deviceId version))
      = (deviceId \<notin> fst ` set (devices svc)) \<and>
   (deviceId \<notin> fst ` set (devices svc) \<longrightarrow>
      snd (updateDeviceFirmware env svc deviceId version) = (svc, env))"
proof (cases "map_of (devices svc) deviceId")
  case None
  then have "deviceId \<notin> fst ` set (devices svc)" by (simp add: not_registered_iff)
  with None show ?thesis
    by (simp add: deployEdgeFunction_def performSecurityScan_def updateDeviceFirmware_def)
next
  case (Some device)
  then have "\<not> deviceId \<notin> fst ` set (devices svc)"
    using not_registered_iff[of "devices svc" deviceId] by simp
  with Some show ?thesis
    by (simp add: deployEdgeFunction_def performSecurityScan_def updateDeviceFirmware_def
          Let_def split: prod.splits)
qed

theorem device_not_found_witness:
  "''nobody'' \<notin> fst ` set (devices sample_service) \<and>
   deployEdgeFunction sample_service ''nobody'' ''code'' [''alert:anomaly''] =
     (Inl (Error ''Device not found''), sample_service) \<and>
   performSecurityScan (sample_env (9/10)) sample_service ''nobody'' =
     (Inl (Error ''Device not found''), sample_service, sample_env (9/10)) \<and>
   updateDeviceFirmware (sample_env (9/10)) sample_service ''nobody'' (Some ''3.0.0'') =
     (Inl (Error ''Device not found''), sample_service, sample_env (9/10)) \<and>
   ''u'' \<in> fst ` set (devices sample_service) \<and>
   fst (deployEdgeFunction sample_service ''u'' ''code'' [''alert:anomaly'']) = Inr () \<and>
   \<not> isl (fst (performSecurityScan (sample_env (9/10)) sample_service ''u'')) \<and>
   fst (updateDeviceFirmware (sample_env (9/10)) sample_service ''u'' (Some ''3.0.0'')) = Inr ()"
proof -
  have keys: "fst ` set (devices sample_service) = {''u''}"
    by (simp add: sample_defs env_defs Let_def)
  have a: "''nobody'' \<notin> fst ` set (devices sample_service)"
    and b: "''u'' \<in> fst ` set (devices sample_service)"
    by (simp_all add: keys)
  from device_not_found[of sample_service "''nobody''" "''code''" "[''alert:anomaly'']"
      "sample_env (9/10)" "Some ''3.0.0''"] a
  have 1: "deployEdgeFunction sample_service ''nobody'' ''code'' [''alert:anomaly''] =
     (Inl (Error ''Device not found''), sample_service)"
    and 2: "performSecurityScan (sample_env (9/10)) sample_service ''nobody'' =
     (Inl (Error ''Device not found''), sample_service, sample_env (9/10))"
    and 3: "updateDeviceFirmware (sample_env (9/10)) sample_service ''nobody'' (Some ''3.0.0'') =
     (Inl (Error ''Device not found''), sample_service, sample_env (9/10))"
    by (simp_all add: prod_eq_iff)
  from device_not_found[of sample_service "''u''" "''code''" "[''alert:anomaly'']"
      "sample_env (9/10)" "Some ''3.0.0''"] b
  have 4: "\<not> isl (fst (deployEdgeFunction sample_service ''u'' ''code'' [''alert:anomaly'']))"
    and 5: "\<not> isl (fst (performSecurityScan (sample_env (9/10)) sample_service ''u''))"
    and 6: "\<not> isl (fst (updateDeviceFirmware (sample_env (9/10)) sample_service ''u'' (Some ''3.0.0'')))"
    by simp_all
  from 4 have d4: "fst (deployEdgeFunction sample_service ''u'' ''code'' [''alert:anomaly'']) = Inr ()"
    by (cases "fst (deployEdgeFunction sample_service ''u'' ''code'' [''alert:anomaly''])") simp_all
  from 6 have d6: "fst (updateDeviceFirmware (sample_env (9/10)) sample_service ''u'' (Some ''3.0.0'')) = Inr ()"
    by (cases "fst (updateDeviceFirmware (sample_env (9/10)) sample_service ''u'' (Some ''3.0.0''))")
       simp_all
  from a b 1 2 3 d4 5 d6 show ?thesis by simp
qed

end
